theory Spec2Isabelle
  imports Main "HOL-Library.Char_ord" "HOL-Library.List_Lexorder" "HOL-Library.AList"
begin

section \<open>Errors and the world outside the program\<close>

text \<open>
  Strings are Go strings: sequences of bytes. A Go function that returns a value together
  with an error is a function into a pair, the second component \<open>None\<close> for \<open>nil\<close>;
  the value beside an error is kept, since the source returns one and some callers read it.

  The errors: the two that \<open>json.Unmarshal\<close> returns (text that is not JSON, with the
  parser's message; a value of the wrong kind, with the kind and the Go type), a path
  that does not exist, any other failure of the filesystem, the error \<open>Load\<close> builds from
  the file name and the decoder's error, the error of \<open>regexp.Compile\<close>, and a run-time
  panic, which ends the function it happens in like an error that every caller passes on.
\<close>

datatype json_error =
    SyntaxError string
  | UnmarshalTypeError string string

datatype error =
    ErrNotExist string
  | ErrIO string
  | ErrParse string json_error
  | ErrPattern string
  | ErrPanic string

text \<open>\<open>os.IsNotExist\<close>: the one kind of filesystem error the source tells apart.\<close>

fun IsNotExist :: "error \<Rightarrow> bool" where
  "IsNotExist (ErrNotExist _) = True"
| "IsNotExist _ = False"

text \<open>
  A JSON number is an integer literal, with its value, or a literal with a fraction or
  an exponent, with its text and whether it lies in the range of a \<open>float64\<close>.
\<close>

datatype number = IntLit int | FloatLit string bool

datatype json =
    JNull
  | JBool bool
  | JNumber number
  | JString string
  | JArray "json list"
  | JObject "(string \<times> json) list"

text \<open>
  What \<open>ioutil.ReadFile\<close> hands to \<open>json.Unmarshal\<close>: bytes that are not JSON text
  (with the parser's message), or the JSON value the text denotes, object members in the
  order of the text.
\<close>

datatype content = Malformed string | Document json

record FileInfo =
  Name :: string
  IsDir :: bool

text \<open>
  A directory tree as \<open>ioutil.ReadDir\<close> shows it, level by level: a name with a file
  (anything that is not a directory), with a directory and its entries, or with a
  directory whose listing fails.
\<close>

datatype node = File | Dir "(string \<times> node) list" | Unreadable error

fun node_IsDir :: "node \<Rightarrow> bool" where
  "node_IsDir File = False"
| "node_IsDir (Dir _) = True"
| "node_IsDir (Unreadable _) = True"

text \<open>
  A compiled regular expression is its \<open>Find\<close>: the text of the leftmost match in the
  argument, \<open>None\<close> (Go's nil slice) when there is none.
\<close>

type_synonym Regexp = "string \<Rightarrow> string option"

section \<open>The manifest\<close>

text \<open>
  The structs \<open>Exercise\<close> and \<open>Config\<close>. Field names are the source's, but for
  \<open>Exercise.Deprecated\<close> and \<open>Exercise.Slug\<close> (here \<open>ExDeprecated\<close>, \<open>ExSlug\<close>) and the
  unexported \<open>Config.path\<close> (here \<open>cpath\<close>), which would clash. The value of the
  \<open>interface{}\<close> field is the JSON value it was decoded from.
\<close>

record Exercise =
  Core :: bool
  ExDeprecated :: bool
  Difficulty :: int
  Topics :: "string list"
  UnlockedBy :: json
  UUID :: string
  ExSlug :: string

record Config =
  cpath :: string
  Active :: bool
  Deprecated :: "string list"
  Exercises :: "Exercise list"
  Foregone :: "string list"
  IgnorePattern :: string
  Language :: string
  Repository :: string
  Slug :: string
  SolutionPattern :: string

definition zero_Exercise :: Exercise where
  "zero_Exercise =
     \<lparr> Core = False, ExDeprecated = False, Difficulty = 0, Topics = [], UnlockedBy = JNull,
       UUID = [], ExSlug = [] \<rparr>"

definition NewConfig :: Config where
  "NewConfig =
     \<lparr> cpath = [], Active = False, Deprecated = [], Exercises = [], Foregone = [],
       IgnorePattern = [], Language = [], Repository = [], Slug = [],
       SolutionPattern = ''[Ee]xample'' \<rparr>"

text \<open>\<open>Config.Slugs\<close>: the slug of every exercise, in order.\<close>

definition Config_Slugs :: "Config \<Rightarrow> string list" where
  "Config_Slugs c = (if length (Exercises c) > 0 then map ExSlug (Exercises c) else [])"

subsection \<open>Decoding\<close>

text \<open>
  \<open>json.Unmarshal\<close> into the two structs, as the package documents it. A member of an
  object goes to the field whose name (the tag, or the Go name of an untagged field)
  equals its key up to case; other members are skipped. \<open>null\<close> leaves a boolean, a
  number, a string or a struct as it is and makes a slice or an interface value nil.
  A value of the wrong kind is skipped; decoding goes on and the earliest such error is
  returned at the end. An array fills a slice from length zero, each element decoded
  into a zero value.

  Two things are left out. When a document names the same field twice, Go decodes the
  second array over the elements the first one left in the slice, so that a \<open>null\<close> or
  an object without a member keeps what was there; the model starts every array from
  zero values. And the error of a wrong value carries the kind of the value alone, where
  Go adds the text of a number. Neither changes whether decoding fails nor a field the
  document does not name.
\<close>

definition toUpper :: "char \<Rightarrow> nat" where
  "toUpper c =
     (let n = (of_char c :: nat) in if 97 \<le> n \<and> n \<le> 122 then n - 32 else n)"

text \<open>
  Case folding of a key, as the list of its folded byte values. Besides the ASCII
  letters, two characters fold to an ASCII letter: U+017F (bytes C5 BF) to \<open>S\<close> (83)
  and U+212A (bytes E2 84 AA) to \<open>K\<close> (75).
\<close>

fun foldKey :: "string \<Rightarrow> nat list" where
  "foldKey [] = []"
| "foldKey (c # cs) =
     (if c = CHR 0xC5 then
        (case cs of
           [] \<Rightarrow> [toUpper c]
         | d # ds \<Rightarrow> if d = CHR 0xBF then 83 # foldKey ds else toUpper c # foldKey cs)
      else if c = CHR 0xE2 then
        (case cs of
           d # e # es \<Rightarrow>
             if d = CHR 0x84 \<and> e = CHR 0xAA then 75 # foldKey es else toUpper c # foldKey cs
         | _ \<Rightarrow> toUpper c # foldKey cs)
      else toUpper c # foldKey cs)"

definition keyIs :: "string \<Rightarrow> string \<Rightarrow> bool" where
  "keyIs key name = (foldKey key = foldKey name)"

fun kind :: "json \<Rightarrow> string" where
  "kind JNull = ''null''"
| "kind (JBool _) = ''bool''"
| "kind (JNumber _) = ''number''"
| "kind (JString _) = ''string''"
| "kind (JArray _) = ''array''"
| "kind (JObject _) = ''object''"

text \<open>The decoder keeps the earliest error.\<close>

fun first_error :: "json_error option \<Rightarrow> json_error option \<Rightarrow> json_error option" where
  "first_error None e = e"
| "first_error (Some e) _ = Some e"

definition earliest :: "json_error option list \<Rightarrow> json_error option" where
  "earliest es = foldr first_error es None"

fun decode_bool :: "bool \<Rightarrow> json \<Rightarrow> bool \<times> json_error option" where
  "decode_bool old (JBool b) = (b, None)"
| "decode_bool old JNull = (old, None)"
| "decode_bool old v = (old, Some (UnmarshalTypeError (kind v) ''bool''))"

fun decode_string :: "string \<Rightarrow> json \<Rightarrow> string \<times> json_error option" where
  "decode_string old (JString s) = (s, None)"
| "decode_string old JNull = (old, None)"
| "decode_string old v = (old, Some (UnmarshalTypeError (kind v) ''string''))"

text \<open>An \<open>int\<close> takes an integer literal within 64 bits.\<close>

fun decode_int :: "int \<Rightarrow> json \<Rightarrow> int \<times> json_error option" where
  "decode_int old (JNumber (IntLit n)) =
     (if - (2 ^ 63) \<le> n \<and> n < 2 ^ 63 then (n, None)
      else (old, Some (UnmarshalTypeError ''number'' ''int'')))"
| "decode_int old JNull = (old, None)"
| "decode_int old v = (old, Some (UnmarshalTypeError (kind v) ''int''))"

fun decode_strings :: "string list \<Rightarrow> json \<Rightarrow> string list \<times> json_error option" where
  "decode_strings old (JArray vs) =
     (map (\<lambda>v. fst (decode_string [] v)) vs, earliest (map (\<lambda>v. snd (decode_string [] v)) vs))"
| "decode_strings old JNull = ([], None)"
| "decode_strings old v = (old, Some (UnmarshalTypeError (kind v) ''[]string''))"

text \<open>
  An \<open>interface{}\<close> takes any value; a number becomes a \<open>float64\<close>, and a literal
  beyond its range is an error and leaves nil. An integer literal is in range below
  \<open>2^1024 - 2^970\<close> in absolute value; a literal with a fraction or an exponent says so
  itself.
\<close>

fun float64_ok :: "number \<Rightarrow> bool" where
  "float64_ok (IntLit n) = (\<bar>n\<bar> < 2 ^ 1024 - 2 ^ 970)"
| "float64_ok (FloatLit _ ok) = ok"

fun iface_error :: "json \<Rightarrow> json_error option" where
  "iface_error (JNumber n) =
     (if float64_ok n then None else Some (UnmarshalTypeError ''number'' ''float64''))"
| "iface_error (JArray vs) = earliest (map iface_error vs)"
| "iface_error (JObject ms) = earliest (map (\<lambda>m. iface_error (snd m)) ms)"
| "iface_error _ = None"

fun iface_value :: "json \<Rightarrow> json" where
  "iface_value (JNumber n) = (if float64_ok n then JNumber n else JNull)"
| "iface_value (JArray vs) = JArray (map iface_value vs)"
| "iface_value (JObject ms) = JObject (map (\<lambda>m. (fst m, iface_value (snd m))) ms)"
| "iface_value v = v"

definition decode_interface :: "json \<Rightarrow> json \<Rightarrow> json \<times> json_error option" where
  "decode_interface old v = (iface_value v, iface_error v)"

text \<open>The members of an object, in order, each through the struct's field decoder.\<close>

fun decode_object ::
  "('a \<Rightarrow> string \<Rightarrow> json \<Rightarrow> 'a \<times> json_error option) \<Rightarrow> 'a \<Rightarrow> (string \<times> json) list
     \<Rightarrow> 'a \<times> json_error option" where
  "decode_object f x [] = (x, None)"
| "decode_object f x ((k, v) # ms) =
     (case f x k v of
        (x', e) \<Rightarrow> (case decode_object f x' ms of (x'', e') \<Rightarrow> (x'', first_error e e')))"

definition Exercise_field :: "Exercise \<Rightarrow> string \<Rightarrow> json \<Rightarrow> Exercise \<times> json_error option" where
  "Exercise_field ex k v =
     (if keyIs k ''core'' then
        (case decode_bool (Core ex) v of (b, e) \<Rightarrow> (ex\<lparr>Core := b\<rparr>, e))
      else if keyIs k ''deprecated'' then
        (case decode_bool (ExDeprecated ex) v of (b, e) \<Rightarrow> (ex\<lparr>ExDeprecated := b\<rparr>, e))
      else if keyIs k ''difficulty'' then
        (case decode_int (Difficulty ex) v of (n, e) \<Rightarrow> (ex\<lparr>Difficulty := n\<rparr>, e))
      else if keyIs k ''topics'' then
        (case decode_strings (Topics ex) v of (xs, e) \<Rightarrow> (ex\<lparr>Topics := xs\<rparr>, e))
      else if keyIs k ''unlocked_by'' then
        (case decode_interface (UnlockedBy ex) v of (u, e) \<Rightarrow> (ex\<lparr>UnlockedBy := u\<rparr>, e))
      else if keyIs k ''uuid'' then
        (case decode_string (UUID ex) v of (s, e) \<Rightarrow> (ex\<lparr>UUID := s\<rparr>, e))
      else if keyIs k ''slug'' then
        (case decode_string (ExSlug ex) v of (s, e) \<Rightarrow> (ex\<lparr>ExSlug := s\<rparr>, e))
      else (ex, None))"

fun decode_Exercise :: "Exercise \<Rightarrow> json \<Rightarrow> Exercise \<times> json_error option" where
  "decode_Exercise old (JObject ms) = decode_object Exercise_field old ms"
| "decode_Exercise old JNull = (old, None)"
| "decode_Exercise old v = (old, Some (UnmarshalTypeError (kind v) ''Exercise''))"

fun decode_Exercises :: "Exercise list \<Rightarrow> json \<Rightarrow> Exercise list \<times> json_error option" where
  "decode_Exercises old (JArray vs) =
     (map (\<lambda>v. fst (decode_Exercise zero_Exercise v)) vs,
      earliest (map (\<lambda>v. snd (decode_Exercise zero_Exercise v)) vs))"
| "decode_Exercises old JNull = ([], None)"
| "decode_Exercises old v = (old, Some (UnmarshalTypeError (kind v) ''[]Exercise''))"

definition Config_field :: "Config \<Rightarrow> string \<Rightarrow> json \<Rightarrow> Config \<times> json_error option" where
  "Config_field c k v =
     (if keyIs k ''active'' then
        (case decode_bool (Active c) v of (b, e) \<Rightarrow> (c\<lparr>Active := b\<rparr>, e))
      else if keyIs k ''Deprecated'' then
        (case decode_strings (Deprecated c) v of (xs, e) \<Rightarrow> (c\<lparr>Deprecated := xs\<rparr>, e))
      else if keyIs k ''exercises'' then
        (case decode_Exercises (Exercises c) v of (xs, e) \<Rightarrow> (c\<lparr>Exercises := xs\<rparr>, e))
      else if keyIs k ''foregone'' then
        (case decode_strings (Foregone c) v of (xs, e) \<Rightarrow> (c\<lparr>Foregone := xs\<rparr>, e))
      else if keyIs k ''ignore_pattern'' then
        (case decode_string (IgnorePattern c) v of (s, e) \<Rightarrow> (c\<lparr>IgnorePattern := s\<rparr>, e))
      else if keyIs k ''language'' then
        (case decode_string (Language c) v of (s, e) \<Rightarrow> (c\<lparr>Language := s\<rparr>, e))
      else if keyIs k ''repository'' then
        (case decode_string (Repository c) v of (s, e) \<Rightarrow> (c\<lparr>Repository := s\<rparr>, e))
      else if keyIs k ''slug'' then
        (case decode_string (Slug c) v of (s, e) \<Rightarrow> (c\<lparr>Slug := s\<rparr>, e))
      else if keyIs k ''solution_pattern'' then
        (case decode_string (SolutionPattern c) v of (s, e) \<Rightarrow> (c\<lparr>SolutionPattern := s\<rparr>, e))
      else (c, None))"

fun decode_Config :: "Config \<Rightarrow> json \<Rightarrow> Config \<times> json_error option" where
  "decode_Config old (JObject ms) = decode_object Config_field old ms"
| "decode_Config old JNull = (old, None)"
| "decode_Config old v = (old, Some (UnmarshalTypeError (kind v) ''Config''))"

text \<open>Text that is not JSON is refused before anything is stored.\<close>

fun Unmarshal :: "content \<Rightarrow> Config \<Rightarrow> Config \<times> json_error option" where
  "Unmarshal (Malformed msg) c = (c, Some (SyntaxError msg))"
| "Unmarshal (Document v) c = decode_Config c v"

text \<open>
  The library calls of the source whose results depend on the machine: the filesystem
  (\<open>ioutil.ReadFile\<close>, \<open>os.Stat\<close>, \<open>ioutil.ReadDir\<close>, each keyed by the path string
  it is called with), \<open>regexp.Compile\<close> and \<open>json.MarshalIndent\<close> (its error alone: the
  source only prints the bytes). They are parameters of every definition that calls
  them; the theorems hold for all of them.
\<close>

record world =
  ReadFile :: "string \<Rightarrow> error + content"
  Stat :: "string \<Rightarrow> error + FileInfo"
  ReadDir :: "string \<Rightarrow> error + (string \<times> node) list"
  Compile :: "string \<Rightarrow> error + Regexp"
  MarshalIndent :: "Config \<Rightarrow> error option"

text \<open>\<open>Load\<close>: the defaults, then the file decoded over them.\<close>

definition Load :: "world \<Rightarrow> string \<Rightarrow> Config \<times> error option" where
  "Load w file =
     (let c = NewConfig in
      case ReadFile w file of
        Inl err \<Rightarrow> (c, Some err)
      | Inr bytes \<Rightarrow>
          (case Unmarshal bytes c of
             (c', Some err) \<Rightarrow> (c', Some (ErrParse file err))
           | (c', None) \<Rightarrow> (c', None)))"

section \<open>Paths\<close>

text \<open>\<open>filepath.Join\<close> and \<open>filepath.Clean\<close> with the separator \<open>/\<close>.\<close>

fun split_slash :: "string \<Rightarrow> string list" where
  "split_slash [] = [[]]"
| "split_slash (c # cs) =
     (if c = CHR ''/'' then [] # split_slash cs
      else (case split_slash cs of [] \<Rightarrow> [[c]] | x # xs \<Rightarrow> (c # x) # xs))"

fun join_slash :: "string list \<Rightarrow> string" where
  "join_slash [] = []"
| "join_slash [x] = x"
| "join_slash (x # y # ys) = x @ ''/'' @ join_slash (y # ys)"

text \<open>
  One element of the path against the elements kept so far (last kept first): an empty
  element and \<open>.\<close> are dropped, \<open>..\<close> removes the element before it when that is a
  name, is kept at the front of a path that is not rooted, and is dropped at the root.
\<close>

fun clean_step :: "bool \<Rightarrow> string list \<Rightarrow> string \<Rightarrow> string list" where
  "clean_step rooted kept e =
     (if e = [] \<or> e = ''.'' then kept
      else if e = ''..'' then
        (case kept of
           [] \<Rightarrow> (if rooted then [] else [''..''])
         | k # ks \<Rightarrow> (if k \<noteq> ''..'' then ks else ''..'' # kept))
      else e # kept)"

definition Clean :: "string \<Rightarrow> string" where
  "Clean p =
     (if p = [] then ''.''
      else let rooted = (hd p = CHR ''/'');
               kept = rev (foldl (clean_step rooted) [] (split_slash p));
               out = (if rooted then ''/'' else []) @ join_slash kept
           in if out = [] then ''.'' else out)"

definition Join :: "string list \<Rightarrow> string" where
  "Join elem =
     (case dropWhile (\<lambda>e. e = []) elem of
        [] \<Rightarrow> []
      | es \<Rightarrow> Clean (join_slash es))"

section \<open>The track\<close>

record Track =
  path :: string
  dirs :: "string \<rightharpoonup> string"

text \<open>
  \<open>isHiddenDir\<close> returns \<open>name[0] != 46\<close>: true for a name that does \<^emph>\<open>not\<close> begin
  with a dot. Indexing an empty name panics: \<open>None\<close>.
\<close>

fun isHiddenDir :: "string \<Rightarrow> bool option" where
  "isHiddenDir [] = None"
| "isHiddenDir (c # _) = Some (of_char c \<noteq> (46::nat))"

text \<open>
  A Go \<open>map[string]struct{}\<close> is a list without repetition, in the order its keys were
  first stored. Go leaves the order in which \<open>range\<close> visits a map open; the model visits
  in that order.
\<close>

definition put :: "string \<Rightarrow> string list \<Rightarrow> string list" where
  "put k m = (if k \<in> set m then m else m @ [k])"

text \<open>The loop of \<open>Dirs\<close> over the entries of \<open>exercises/\<close>.\<close>

fun Dirs_loop :: "string list \<Rightarrow> (string \<times> node) list \<Rightarrow> string list \<times> error option" where
  "Dirs_loop ds [] = (ds, None)"
| "Dirs_loop ds ((name, n) # infos) =
     (if node_IsDir n \<and> name \<noteq> ''exercises'' then
        (case isHiddenDir name of
           None \<Rightarrow> (ds, Some (ErrPanic ''index out of range''))
         | Some True \<Rightarrow> Dirs_loop (put name ds) infos
         | Some False \<Rightarrow> Dirs_loop ds infos)
      else Dirs_loop ds infos)"

definition Dirs :: "world \<Rightarrow> Track \<Rightarrow> string list \<times> error option" where
  "Dirs w t =
     (let p = Join [path t, ''exercises''] in
      case Stat w p of
        Inl err \<Rightarrow> (if IsNotExist err then ([], None) else ([], Some err))
      | Inr _ \<Rightarrow>
          (case ReadDir w (Join [path t, ''exercises'']) of
             Inl err \<Rightarrow> ([], Some err)
           | Inr infos \<Rightarrow> Dirs_loop [] infos))"

text \<open>\<open>Track.configFile\<close> and \<open>Track.Config\<close>.\<close>

definition configFile :: "Track \<Rightarrow> string" where
  "configFile t = path t @ ''/config.json''"

definition Track_Config :: "world \<Rightarrow> Track \<Rightarrow> Config \<times> error option" where
  "Track_Config w t = Load w (configFile t)"

text \<open>
  \<open>HasValidConfig\<close>. The second \<open>:=\<close> assigns the error of \<open>json.MarshalIndent\<close> to the
  same \<open>err\<close>; the two prints are left out.
\<close>

definition HasValidConfig :: "world \<Rightarrow> Track \<Rightarrow> bool" where
  "HasValidConfig w t =
     (case Track_Config w t of
        (c, err) \<Rightarrow> (let err = MarshalIndent w c in err = None))"

definition Problems :: "world \<Rightarrow> Track \<Rightarrow> string list \<times> error option" where
  "Problems w t =
     (case Track_Config w t of
        (c, Some err) \<Rightarrow> ([], Some err)
      | (c, None) \<Rightarrow> (foldl (\<lambda>m k. put k m) [] (Config_Slugs c), None))"

definition Track_Slugs :: "world \<Rightarrow> Track \<Rightarrow> string list \<times> error option" where
  "Track_Slugs w t =
     (case Track_Config w t of
        (c, Some err) \<Rightarrow> ([], Some err)
      | (c, None) \<Rightarrow>
          (let slugs = foldl (\<lambda>m k. put k m) [] (Config_Slugs c);
               slugs = foldl (\<lambda>m k. put k m) slugs (Deprecated c);
               slugs = foldl (\<lambda>m k. put k m) slugs (Foregone c)
           in (slugs, None)))"

text \<open>
  \<open>NewTrack\<close>: every declared slug whose \<open>exercises/<slug>\<close> is a directory with a name
  that does not begin with a dot gets its path in \<open>dirs\<close>.
\<close>

fun NewTrack_loop :: "world \<Rightarrow> Track \<Rightarrow> string list \<Rightarrow> Track \<times> error option" where
  "NewTrack_loop w t [] = (t, None)"
| "NewTrack_loop w t (slug # slugs) =
     (let p = Join [path t, ''exercises'', slug] in
      case Stat w p of
        Inr fi \<Rightarrow>
          (if IsDir fi then
             (case isHiddenDir (Name fi) of
                None \<Rightarrow> (t, Some (ErrPanic ''index out of range''))
              | Some True \<Rightarrow> NewTrack_loop w (t\<lparr>dirs := (dirs t)(slug \<mapsto> p)\<rparr>) slugs
              | Some False \<Rightarrow> NewTrack_loop w t slugs)
           else NewTrack_loop w t slugs)
      | Inl err \<Rightarrow> (if \<not> IsNotExist err then (t, Some err) else NewTrack_loop w t slugs))"

definition NewTrack :: "world \<Rightarrow> string \<Rightarrow> Track \<times> error option" where
  "NewTrack w p =
     (let t = \<lparr>path = p, dirs = Map.empty\<rparr> in
      case Track_Slugs w t of
        (slugs, Some err) \<Rightarrow> (t, Some err)
      | (slugs, None) \<Rightarrow> NewTrack_loop w t slugs)"

definition MissingProblems :: "world \<Rightarrow> Track \<Rightarrow> string list \<times> error option" where
  "MissingProblems w t =
     (case Dirs w t of
        (ds, Some err) \<Rightarrow> ([], Some err)
      | (ds, None) \<Rightarrow>
          (case Problems w t of
             (problems, Some err) \<Rightarrow> ([], Some err)
           | (problems, None) \<Rightarrow> (filter (\<lambda>problem. problem \<notin> set ds) problems, None)))"

definition UnconfiguredProblems :: "world \<Rightarrow> Track \<Rightarrow> string list \<times> error option" where
  "UnconfiguredProblems w t =
     (case Dirs w t of
        (ds, Some err) \<Rightarrow> ([], Some err)
      | (ds, None) \<Rightarrow>
          (case Track_Slugs w t of
             (slugs, Some err) \<Rightarrow> ([], Some err)
           | (slugs, None) \<Rightarrow> (filter (\<lambda>d. d \<notin> set slugs) ds, None)))"

definition ForegoneViolations :: "world \<Rightarrow> Track \<Rightarrow> string list \<times> error option" where
  "ForegoneViolations w t =
     (case Track_Config w t of
        (c, Some err) \<Rightarrow> ([], Some err)
      | (c, None) \<Rightarrow>
          (case Dirs w t of
             (ds, Some err) \<Rightarrow> ([], Some err)
           | (ds, None) \<Rightarrow> (filter (\<lambda>problem. problem \<in> set ds) (Foregone c), None)))"

text \<open>
  \<open>DuplicateSlugs\<close>. The map of counts is an association list, keys in the order they
  were first counted; \<open>counts[slug]\<close> of an absent key is 0.
\<close>

definition incr :: "(string \<times> int) list \<Rightarrow> string \<Rightarrow> (string \<times> int) list" where
  "incr counts slug =
     AList.update slug ((case map_of counts slug of None \<Rightarrow> 0 | Some n \<Rightarrow> n) + 1) counts"

definition DuplicateSlugs :: "world \<Rightarrow> Track \<Rightarrow> string list \<times> error option" where
  "DuplicateSlugs w t =
     (case Track_Config w t of
        (c, Some err) \<Rightarrow> ([], Some err)
      | (c, None) \<Rightarrow>
          (let counts = foldl incr [] (Config_Slugs c);
               counts = foldl incr counts (Deprecated c);
               counts = foldl incr counts (Foregone c);
               dupes = map fst (filter (\<lambda>sc. snd sc > 1) counts)
           in (sort dupes, None)))"

text \<open>
  \<open>findAllFiles\<close>: the loop over the entries of the directory \<open>p\<close>, \<open>files\<close> the paths
  collected so far. The call on a subdirectory reads the entries the tree gives it.
\<close>

fun findAllFiles_loop ::
  "string \<Rightarrow> string list \<Rightarrow> (string \<times> node) list \<Rightarrow> string list \<times> error option" where
  "findAllFiles_loop p files [] = (files, None)"
| "findAllFiles_loop p files ((name, File) # infos) =
     findAllFiles_loop p (files @ [p @ ''/'' @ name]) infos"
| "findAllFiles_loop p files ((name, Unreadable err) # infos) = (files, Some err)"
| "findAllFiles_loop p files ((name, Dir es) # infos) =
     (case findAllFiles_loop (p @ ''/'' @ name) [] es of
        (subFiles, Some err) \<Rightarrow> (files, Some err)
      | (subFiles, None) \<Rightarrow> findAllFiles_loop p (files @ subFiles) infos)"

definition findAllFiles :: "world \<Rightarrow> string \<Rightarrow> string list \<times> error option" where
  "findAllFiles w p =
     (case ReadDir w p of
        Inl err \<Rightarrow> ([], Some err)
      | Inr infos \<Rightarrow> findAllFiles_loop p [] infos)"

text \<open>\<open>hasExampleFile\<close>: a file counts when \<open>Find\<close> returns a match of positive length.\<close>

fun hasExampleFile_loop :: "Regexp \<Rightarrow> string list \<Rightarrow> bool" where
  "hasExampleFile_loop r [] = False"
| "hasExampleFile_loop r (file # files) =
     (let matches = (case r file of None \<Rightarrow> [] | Some m \<Rightarrow> m) in
      if length matches > 0 then True else hasExampleFile_loop r files)"

definition hasExampleFile :: "world \<Rightarrow> Track \<Rightarrow> string list \<Rightarrow> bool \<times> error option" where
  "hasExampleFile w t files =
     (case Track_Config w t of
        (c, Some err) \<Rightarrow> (False, Some err)
      | (c, None) \<Rightarrow>
          (case Compile w (SolutionPattern c) of
             Inl err \<Rightarrow> (False, Some err)
           | Inr r \<Rightarrow> (hasExampleFile_loop r files, None)))"

text \<open>
  \<open>ProblemsLackingExample\<close>. The error of \<open>hasExampleFile\<close> is assigned and not read.
\<close>

fun ProblemsLackingExample_loop ::
  "world \<Rightarrow> Track \<Rightarrow> string list \<Rightarrow> string list \<Rightarrow> string list \<times> error option" where
  "ProblemsLackingExample_loop w t issues [] = (issues, None)"
| "ProblemsLackingExample_loop w t issues (problem # problems) =
     (let p = (case dirs t problem of None \<Rightarrow> [] | Some q \<Rightarrow> q) in
      if p = [] then ProblemsLackingExample_loop w t issues problems
      else
        (case findAllFiles w p of
           (files, Some err) \<Rightarrow> (issues, Some err)
         | (files, None) \<Rightarrow>
             (case hasExampleFile w t files of
                (found, err) \<Rightarrow>
                  if \<not> found then ProblemsLackingExample_loop w t (issues @ [problem]) problems
                  else ProblemsLackingExample_loop w t issues problems)))"

definition ProblemsLackingExample :: "world \<Rightarrow> Track \<Rightarrow> string list \<times> error option" where
  "ProblemsLackingExample w t =
     (case Track_Config w t of
        (c, Some err) \<Rightarrow> ([], Some err)
      | (c, None) \<Rightarrow> ProblemsLackingExample_loop w t [] (Config_Slugs c))"

section \<open>Example worlds\<close>

text \<open>
  A track at \<open>root\<close> (a clean path) whose \<open>config.json\<close> reads as \<open>cfg\<close> and whose
  \<open>exercises/\<close> directory holds \<open>entries\<close>; nothing else exists. Marshalling succeeds,
  as it does in Go on every \<open>Config\<close>: the struct holds booleans, strings, integers,
  slices of them and, in \<open>UnlockedBy\<close>, a value that came out of \<open>json.Unmarshal\<close>.
\<close>

definition track_world ::
  "string \<Rightarrow> (error + content) \<Rightarrow> (string \<times> node) list \<Rightarrow> (string \<Rightarrow> error + Regexp) \<Rightarrow> world" where
  "track_world root cfg entries rc =
     \<lparr> ReadFile = (\<lambda>p. if p = root @ ''/config.json'' then cfg else Inl (ErrNotExist p)),
       Stat = (\<lambda>p. if p = root @ ''/exercises'' then Inr \<lparr>Name = ''exercises'', IsDir = True\<rparr>
                   else (case filter (\<lambda>e. root @ ''/exercises/'' @ fst e = p) entries of
                           [] \<Rightarrow> Inl (ErrNotExist p)
                         | (name, n) # _ \<Rightarrow> Inr \<lparr>Name = name, IsDir = node_IsDir n\<rparr>)),
       ReadDir = (\<lambda>p. if p = root @ ''/exercises'' then Inr entries
                   else (case filter (\<lambda>e. root @ ''/exercises/'' @ fst e = p) entries of
                           [] \<Rightarrow> Inl (ErrNotExist p)
                         | (name, File) # _ \<Rightarrow> Inl (ErrIO ''not a directory'')
                         | (name, Dir es) # _ \<Rightarrow> Inr es
                         | (name, Unreadable e) # _ \<Rightarrow> Inl e)),
       Compile = rc,
       MarshalIndent = (\<lambda>c. None) \<rparr>"

text \<open>
  \<open>regexp.Compile\<close> on the patterns the examples use: a sequence of letters, digits,
  underscores and bracket expressions that list such characters, and a pattern with a
  bracket that is never closed, which \<open>regexp.Compile\<close> refuses. The leftmost match of
  such a pattern is the first stretch of the text that fits it character by character.
  No example compiles a pattern of another form; for those \<open>simple_Compile\<close> answers
  with an error of its own.
\<close>

definition is_word_char :: "char \<Rightarrow> bool" where
  "is_word_char c =
     (let n = (of_char c :: nat) in
      (48 \<le> n \<and> n \<le> 57) \<or> (65 \<le> n \<and> n \<le> 90) \<or> n = 95 \<or> (97 \<le> n \<and> n \<le> 122))"

function parse_classes :: "string \<Rightarrow> error + string list" where
  "parse_classes [] = Inr []"
| "parse_classes (c # cs) =
     (if c = CHR ''['' then
        (case dropWhile is_word_char cs of
           [] \<Rightarrow> Inl (ErrPattern ''missing closing ]'')
         | d # ds \<Rightarrow>
             if d = CHR '']'' \<and> takeWhile is_word_char cs \<noteq> [] then
               (case parse_classes ds of
                  Inl err \<Rightarrow> Inl err
                | Inr cls \<Rightarrow> Inr (takeWhile is_word_char cs # cls))
             else Inl (ErrPattern ''outside the examples''))
      else if is_word_char c then
        (case parse_classes cs of Inl err \<Rightarrow> Inl err | Inr cls \<Rightarrow> Inr ([c] # cls))
      else Inl (ErrPattern ''outside the examples''))"
  by pat_completeness auto
termination
proof (relation "measure length")
  fix c :: char and cs ds :: string and d :: char
  assume "dropWhile is_word_char cs = d # ds"
  then have "length (d # ds) \<le> length cs"
    using length_dropWhile_le [of is_word_char cs] by simp
  then show "(ds, c # cs) \<in> measure length" by simp
qed simp_all

fun match_here :: "string list \<Rightarrow> string \<Rightarrow> bool" where
  "match_here [] s = True"
| "match_here (cl # cls) [] = False"
| "match_here (cl # cls) (c # cs) = (c \<in> set cl \<and> match_here cls cs)"

fun find_classes :: "string list \<Rightarrow> Regexp" where
  "find_classes cls [] = (if match_here cls [] then Some [] else None)"
| "find_classes cls (c # cs) =
     (if match_here cls (c # cs) then Some (take (length cls) (c # cs))
      else find_classes cls cs)"

definition simple_Compile :: "string \<Rightarrow> error + Regexp" where
  "simple_Compile pat =
     (case parse_classes pat of Inl err \<Rightarrow> Inl err | Inr cls \<Rightarrow> Inr (find_classes cls))"

text \<open>
  The track of the end-to-end scenario: \<open>bob\<close> configured and implemented with
  \<open>example.go\<close>, \<open>trivial\<close> foregone and yet present. And a track where the manifest and
  the directories agree.
\<close>

definition scenario_config :: json where
  "scenario_config =
     JObject [(''exercises'', JArray [JObject [(''slug'', JString ''bob'')]]),
              (''foregone'', JArray [JString ''trivial'']),
              (''deprecated'', JArray [])]"

definition scenario_world :: world where
  "scenario_world =
     track_world ''track'' (Inr (Document scenario_config))
       [(''bob'', Dir [(''example.go'', File)]), (''trivial'', Dir [])] simple_Compile"

definition tidy_config :: json where
  "tidy_config = JObject [(''exercises'', JArray [JObject [(''slug'', JString ''bob'')]])]"

definition tidy_world :: world where
  "tidy_world =
     track_world ''track'' (Inr (Document tidy_config))
       [(''bob'', Dir [(''example.go'', File)])] simple_Compile"

text \<open>A track root with no \<open>exercises/\<close> at all, and two where it cannot be read.\<close>

definition bare_world :: world where
  "bare_world =
     \<lparr> ReadFile = (\<lambda>p. Inl (ErrNotExist p)),
       Stat = (\<lambda>p. Inl (ErrNotExist p)),
       ReadDir = (\<lambda>p. Inl (ErrNotExist p)),
       Compile = (\<lambda>p. Inl (ErrPattern p)),
       MarshalIndent = (\<lambda>c. None) \<rparr>"

definition denied_world :: world where
  "denied_world = bare_world \<lparr> Stat := (\<lambda>p. Inl (ErrIO ''permission denied'')) \<rparr>"

definition unlistable_world :: world where
  "unlistable_world =
     bare_world \<lparr> Stat := (\<lambda>p. Inr \<lparr>Name = ''exercises'', IsDir = True\<rparr>),
                  ReadDir := (\<lambda>p. Inl (ErrIO ''permission denied'')) \<rparr>"


definition hidden_world :: world where
  "hidden_world =
     track_world ''track''
       (Inr (Document (JObject
          [(''exercises'', JArray [JObject [(''slug'', JString ''.meta'')],
                                   JObject [(''slug'', JString ''bob'')]])])))
       [(''.meta'', Dir []), (''bob'', Dir [(''example.go'', File)])] simple_Compile"

text \<open>
  How often a slug is written in the manifest, the three sequences together; and
  whether it is written in two or more of them.
\<close>

definition occurrences :: "Config \<Rightarrow> string \<Rightarrow> nat" where
  "occurrences c s =
     count_list (Config_Slugs c) s + count_list (Deprecated c) s + count_list (Foregone c) s"

definition in_two_or_more :: "Config \<Rightarrow> string \<Rightarrow> bool" where
  "in_two_or_more c s =
     ((s \<in> set (Config_Slugs c) \<and> s \<in> set (Deprecated c)) \<or>
      (s \<in> set (Config_Slugs c) \<and> s \<in> set (Foregone c)) \<or>
      (s \<in> set (Deprecated c) \<and> s \<in> set (Foregone c)))"

text \<open>
  A manifest that lists \<open>bob\<close> twice among its exercises, and one whose three sequences
  overlap.
\<close>

definition twice_world :: world where
  "twice_world =
     track_world ''track''
       (Inr (Document (JObject
          [(''exercises'', JArray [JObject [(''slug'', JString ''bob'')],
                                   JObject [(''slug'', JString ''bob'')]])])))
       [(''bob'', Dir [(''example.go'', File)])] simple_Compile"

definition overlap_world :: world where
  "overlap_world =
     track_world ''track''
       (Inr (Document (JObject
          [(''exercises'', JArray [JObject [(''slug'', JString ''bob'')],
                                   JObject [(''slug'', JString ''anna'')],
                                   JObject [(''slug'', JString ''carl'')]]),
           (''deprecated'', JArray [JString ''zed'', JString ''bob'']),
           (''foregone'', JArray [JString ''anna'', JString ''bob''])])))
       [] simple_Compile"

text \<open>
  A manifest document as \<open>Load\<close> accepts it: an object in which every member that names
  a field of \<open>Config\<close> holds a value the field takes. No member has to be there. And a
  document that omits a field: no member's key is the field's name, whatever the case.
\<close>

definition accepted :: "string \<times> json \<Rightarrow> bool" where
  "accepted m = (snd (Config_field NewConfig (fst m) (snd m)) = None)"

definition well_formed :: "json \<Rightarrow> bool" where
  "well_formed doc = (case doc of JObject ms \<Rightarrow> list_all accepted ms | _ \<Rightarrow> False)"

definition omits :: "json \<Rightarrow> string \<Rightarrow> bool" where
  "omits doc name =
     (case doc of JObject ms \<Rightarrow> list_all (\<lambda>m. \<not> keyIs (fst m) name) ms | _ \<Rightarrow> True)"

text \<open>
  The files of a directory tree, by their paths from \<open>p\<close>: the files the directory lists
  and the files of the directories it lists, to any depth. And a path that a compiled
  pattern matches with a match of positive length.
\<close>

inductive file_under :: "string \<Rightarrow> (string \<times> node) list \<Rightarrow> string \<Rightarrow> bool" where
  here: "(name, File) \<in> set es \<Longrightarrow> file_under p es (p @ ''/'' @ name)"
| below: "(name, Dir sub) \<in> set es \<Longrightarrow> file_under (p @ ''/'' @ name) sub f \<Longrightarrow> file_under p es f"

definition matched :: "Regexp \<Rightarrow> string \<Rightarrow> bool" where
  "matched r f = (case r f of None \<Rightarrow> False | Some m \<Rightarrow> m \<noteq> [])"

text \<open>
  Tracks for the example solutions. In the first, \<open>plain\<close> holds only \<open>solution.go\<close>,
  \<open>named\<close> holds \<open>example_solution.go\<close>, \<open>deep\<close> holds \<open>Example.go\<close> two directories
  down, and \<open>absent\<close> has no directory. In the second the manifest sets an empty
  \<open>solution_pattern\<close>, in the third one that does not compile. In the last, the
  directory of \<open>bob\<close> cannot be listed, after \<open>anna\<close> without an example.
\<close>

definition examples_world :: world where
  "examples_world =
     track_world ''track''
       (Inr (Document (JObject
          [(''exercises'', JArray [JObject [(''slug'', JString ''plain'')],
                                   JObject [(''slug'', JString ''named'')],
                                   JObject [(''slug'', JString ''deep'')],
                                   JObject [(''slug'', JString ''absent'')]])])))
       [(''deep'', Dir [(''README.md'', File),
                        (''src'', Dir [(''main'', Dir [(''Example.go'', File)])])]),
        (''named'', Dir [(''example_solution.go'', File)]),
        (''plain'', Dir [(''solution.go'', File)])]
       simple_Compile"

definition emptypattern_world :: world where
  "emptypattern_world =
     track_world ''track''
       (Inr (Document (JObject
          [(''exercises'', JArray [JObject [(''slug'', JString ''bob'')]]),
           (''solution_pattern'', JString [])])))
       [(''bob'', Dir [(''example.go'', File)])] simple_Compile"

definition badpattern_world :: world where
  "badpattern_world =
     track_world ''track''
       (Inr (Document (JObject
          [(''exercises'', JArray [JObject [(''slug'', JString ''bob'')]]),
           (''solution_pattern'', JString ''['')])))
       [(''bob'', Dir [(''example.go'', File)])] simple_Compile"

definition partial_world :: world where
  "partial_world =
     track_world ''track''
       (Inr (Document (JObject
          [(''exercises'', JArray [JObject [(''slug'', JString ''anna'')],
                                   JObject [(''slug'', JString ''bob'')]])])))
       [(''anna'', Dir [(''solution.go'', File)]),
        (''bob'', Unreadable (ErrIO ''permission denied''))] simple_Compile"

text \<open>A track whose \<open>config.json\<close> is not JSON text.\<close>

definition broken_world :: world where
  "broken_world =
     track_world ''track'' (Inr (Malformed ''unexpected end of JSON input'')) [] simple_Compile"

section \<open>Implemented directories\<close>

text \<open>
  C7. When \<open>exercises/\<close> does not exist (\<open>os.Stat\<close> fails with a does-not-exist error),
  \<open>Dirs\<close> returns the empty set and no error. Any other error of \<open>os.Stat\<close>, and any
  error of reading the directory, is returned as the error of \<open>Dirs\<close>.
\<close>

theorem Dirs_missing_exercises:
  "(Stat w (Join [path t, ''exercises'']) = Inl err \<and> IsNotExist err
      \<longrightarrow> Dirs w t = ([], None)) \<and>
   (Stat w (Join [path t, ''exercises'']) = Inl err \<and> \<not> IsNotExist err
      \<longrightarrow> Dirs w t = ([], Some err)) \<and>
   (Stat w (Join [path t, ''exercises'']) = Inr fi \<and>
    ReadDir w (Join [path t, ''exercises'']) = Inl err
      \<longrightarrow> Dirs w t = ([], Some err))"
  by (simp add: Dirs_def)

theorem Dirs_missing_exercises_witness:
  "Dirs bare_world \<lparr>path = ''track'', dirs = Map.empty\<rparr> = ([], None) \<and>
   Dirs denied_world \<lparr>path = ''track'', dirs = Map.empty\<rparr>
     = ([], Some (ErrIO ''permission denied'')) \<and>
   Dirs unlistable_world \<lparr>path = ''track'', dirs = Map.empty\<rparr>
     = ([], Some (ErrIO ''permission denied''))"
  using Dirs_missing_exercises
          [of bare_world "\<lparr>path = ''track'', dirs = Map.empty\<rparr>"
              "ErrNotExist ''track/exercises''"]
        Dirs_missing_exercises
          [of denied_world "\<lparr>path = ''track'', dirs = Map.empty\<rparr>"
              "ErrIO ''permission denied''"]
        Dirs_missing_exercises
          [of unlistable_world "\<lparr>path = ''track'', dirs = Map.empty\<rparr>"
              "ErrIO ''permission denied''" "\<lparr>Name = ''exercises'', IsDir = True\<rparr>"]
  by (simp add: bare_world_def denied_world_def unlistable_world_def Join_def Clean_def)

section \<open>Missing and unconfigured directories\<close>

lemma set_put: "set (put k m) = insert k (set m)"
  by (auto simp: put_def)

lemma set_foldl_put: "set (foldl (\<lambda>m k. put k m) m ks) = set m \<union> set ks"
  by (induction ks arbitrary: m) (auto simp: set_put)

lemma Config_Slugs_map: "Config_Slugs c = map ExSlug (Exercises c)"
  by (cases "Exercises c") (simp_all add: Config_Slugs_def)

lemma Problems_ok:
  "Track_Config w t = (c, None) \<Longrightarrow>
     snd (Problems w t) = None \<and> set (fst (Problems w t)) = set (Config_Slugs c)"
  by (simp add: Problems_def set_foldl_put)

lemma Track_Slugs_ok:
  "Track_Config w t = (c, None) \<Longrightarrow>
     snd (Track_Slugs w t) = None \<and>
     set (fst (Track_Slugs w t)) = set (Config_Slugs c) \<union> set (Deprecated c) \<union> set (Foregone c)"
  by (simp add: Track_Slugs_def set_foldl_put Let_def)

lemma set_filter_notin: "set (filter (\<lambda>p. p \<notin> A) xs) = set xs - A"
  by auto

text \<open>The example tracks load, and their directories list.\<close>

lemma Join_track_exercises: "Join [''track'', ''exercises''] = ''track/exercises''"
  by (simp add: Join_def Clean_def)

lemma tidy_Config:
  "Track_Config tidy_world \<lparr>path = ''track'', dirs = d\<rparr>
     = (NewConfig \<lparr>Exercises := [zero_Exercise \<lparr>ExSlug := ''bob''\<rparr>]\<rparr>, None)"
  by (simp add: Track_Config_def Load_def configFile_def tidy_world_def tidy_config_def
      track_world_def NewConfig_def Config_field_def keyIs_def toUpper_def zero_Exercise_def
      Exercise_field_def earliest_def)

lemma tidy_Dirs: "Dirs tidy_world \<lparr>path = ''track'', dirs = d\<rparr> = ([''bob''], None)"
  by (simp add: Dirs_def Join_track_exercises tidy_world_def track_world_def put_def)

text \<open>
  C5. For a manifest \<open>M\<close> that loads and a set \<open>D\<close> of directories that \<open>Dirs\<close> reads,
  \<open>MissingProblems\<close> is, as a set, the exercise slugs of \<open>M\<close> minus \<open>D\<close>, and
  \<open>UnconfiguredProblems\<close> is \<open>D\<close> minus the declared slugs (exercise slugs, deprecated
  and foregone together); neither returns an error; and both are empty when the
  exercise slugs, \<open>D\<close> and the declared slugs are the same set.
\<close>

theorem set_difference_correct:
  assumes "Track_Config w t = (M, None)" and "Dirs w t = (D, None)"
  shows "snd (MissingProblems w t) = None \<and>
         set (fst (MissingProblems w t)) = set (Config_Slugs M) - set D \<and>
         snd (UnconfiguredProblems w t) = None \<and>
         set (fst (UnconfiguredProblems w t))
           = set D - (set (Config_Slugs M) \<union> set (Deprecated M) \<union> set (Foregone M)) \<and>
         (set (Config_Slugs M) = set D \<and>
          set D = set (Config_Slugs M) \<union> set (Deprecated M) \<union> set (Foregone M)
            \<longrightarrow> fst (MissingProblems w t) = [] \<and> fst (UnconfiguredProblems w t) = [])"
proof -
  obtain ps where ps: "Problems w t = (ps, None)" "set ps = set (Config_Slugs M)"
    using Problems_ok [OF assms(1)] by (cases "Problems w t") auto
  obtain ss where ss: "Track_Slugs w t = (ss, None)"
    "set ss = set (Config_Slugs M) \<union> set (Deprecated M) \<union> set (Foregone M)"
    using Track_Slugs_ok [OF assms(1)] by (cases "Track_Slugs w t") auto
  have m: "MissingProblems w t = (filter (\<lambda>p. p \<notin> set D) ps, None)"
    by (simp add: MissingProblems_def assms(2) ps(1))
  have u: "UnconfiguredProblems w t = (filter (\<lambda>d. d \<notin> set ss) D, None)"
    by (simp add: UnconfiguredProblems_def assms(2) ss(1))
  have m_set: "set (fst (MissingProblems w t)) = set (Config_Slugs M) - set D"
    by (simp only: m fst_conv set_filter_notin ps(2))
  have u_set: "set (fst (UnconfiguredProblems w t))
      = set D - (set (Config_Slugs M) \<union> set (Deprecated M) \<union> set (Foregone M))"
    by (simp only: u fst_conv set_filter_notin ss(2))
  have both: "fst (MissingProblems w t) = [] \<and> fst (UnconfiguredProblems w t) = []"
    if eq1: "set (Config_Slugs M) = set D"
      and eq2: "set D = set (Config_Slugs M) \<union> set (Deprecated M) \<union> set (Foregone M)"
  proof -
    have "set (fst (MissingProblems w t)) = {}"
      by (simp only: m_set eq1 Diff_cancel)
    moreover have "set (fst (UnconfiguredProblems w t)) = {}"
      by (simp only: u_set eq2 [symmetric] Diff_cancel)
    ultimately show ?thesis by (simp only: set_empty simp_thms)
  qed
  have e1: "snd (MissingProblems w t) = None" by (simp only: m snd_conv)
  have e2: "snd (UnconfiguredProblems w t) = None" by (simp only: u snd_conv)
  show ?thesis
  proof (intro conjI impI)
    assume h: "set (Config_Slugs M) = set D \<and>
      set D = set (Config_Slugs M) \<union> set (Deprecated M) \<union> set (Foregone M)"
    show "fst (MissingProblems w t) = []"
      by (rule conjunct1 [OF both [OF conjunct1 [OF h] conjunct2 [OF h]]])
    show "fst (UnconfiguredProblems w t) = []"
      by (rule conjunct2 [OF both [OF conjunct1 [OF h] conjunct2 [OF h]]])
  qed (rule e1 m_set e2 u_set)+
qed

theorem set_difference_correct_witness:
  "Track_Config tidy_world \<lparr>path = ''track'', dirs = Map.empty\<rparr>
     = (NewConfig \<lparr>Exercises := [zero_Exercise \<lparr>ExSlug := ''bob''\<rparr>]\<rparr>, None) \<and>
   Dirs tidy_world \<lparr>path = ''track'', dirs = Map.empty\<rparr> = ([''bob''], None) \<and>
   fst (MissingProblems tidy_world \<lparr>path = ''track'', dirs = Map.empty\<rparr>) = [] \<and>
   fst (UnconfiguredProblems tidy_world \<lparr>path = ''track'', dirs = Map.empty\<rparr>) = []"
proof -
  let ?t = "\<lparr>path = ''track'', dirs = Map.empty\<rparr>"
  let ?c = "NewConfig \<lparr>Exercises := [zero_Exercise \<lparr>ExSlug := ''bob''\<rparr>]\<rparr>"
  have s: "Config_Slugs ?c = [''bob'']"
    by (simp add: Config_Slugs_def)
  have dep: "Deprecated ?c = []" "Foregone ?c = []"
    by (simp_all add: NewConfig_def)
  have eq1: "set (Config_Slugs ?c) = set [''bob'']"
    by (simp only: s)
  have eq2: "set [''bob''] = set (Config_Slugs ?c) \<union> set (Deprecated ?c) \<union> set (Foregone ?c)"
    by (simp only: s dep set_simps Un_empty_right)
  note T = set_difference_correct [OF tidy_Config [of Map.empty] tidy_Dirs [of Map.empty]]
  note imp = T [THEN conjunct2, THEN conjunct2, THEN conjunct2, THEN conjunct2]
  note both = mp [OF imp conjI [OF eq1 eq2]]
  show ?thesis
    by (intro conjI) (rule tidy_Config tidy_Dirs conjunct1 [OF both] conjunct2 [OF both])+
qed

section \<open>Hidden directories and the directory named exercises\<close>

lemma of_char_dot: "of_char c = (46::nat) \<longleftrightarrow> c = CHR ''.''"
proof
  assume "of_char c = (46::nat)"
  then have "of_char c = (of_char (CHR ''.'') :: nat)" by simp
  then show "c = CHR ''.''" by (simp only: of_char_eq_iff)
qed simp

lemma isHiddenDir_True: "isHiddenDir name = Some True \<longleftrightarrow> (\<exists>c cs. name = c # cs \<and> c \<noteq> CHR ''.'')"
  by (cases name) (simp_all add: of_char_dot)

lemma Dirs_loop_sound:
  "x \<in> set (fst (Dirs_loop ds infos)) \<Longrightarrow>
     x \<in> set ds \<or> (\<exists>n. (x, n) \<in> set infos \<and> node_IsDir n \<and> x \<noteq> ''exercises''
                         \<and> isHiddenDir x = Some True)"
proof (induction infos arbitrary: ds)
  case Nil
  then show ?case by simp
next
  case (Cons i infos)
  obtain name n where i: "i = (name, n)" by (cases i)
  show ?case
  proof (cases "node_IsDir n \<and> name \<noteq> ''exercises''")
    case False
    with Cons.prems i have "x \<in> set (fst (Dirs_loop ds infos))" by auto
    from Cons.IH [OF this] show ?thesis by auto
  next
    case True
    show ?thesis
    proof (cases "isHiddenDir name")
      case None
      with Cons.prems i True show ?thesis by simp
    next
      case (Some b)
      show ?thesis
      proof (cases b)
        case True
        with Cons.prems i Some \<open>node_IsDir n \<and> name \<noteq> ''exercises''\<close>
        have "x \<in> set (fst (Dirs_loop (put name ds) infos))" by simp
        from Cons.IH [OF this] i Some True \<open>node_IsDir n \<and> name \<noteq> ''exercises''\<close>
        show ?thesis by (auto simp: set_put)
      next
        case False
        with Cons.prems i Some \<open>node_IsDir n \<and> name \<noteq> ''exercises''\<close>
        have "x \<in> set (fst (Dirs_loop ds infos))" by simp
        from Cons.IH [OF this] show ?thesis by auto
      qed
    qed
  qed
qed

lemma Dirs_sound:
  assumes "x \<in> set (fst (Dirs w t))"
  shows "x \<noteq> ''exercises'' \<and> isHiddenDir x = Some True"
proof -
  from assms obtain infos where "x \<in> set (fst (Dirs_loop [] infos))"
    by (auto simp: Dirs_def Let_def split: sum.splits if_splits)
  from Dirs_loop_sound [OF this] show ?thesis by auto
qed

lemma NewTrack_loop_path: "path (fst (NewTrack_loop w t slugs)) = path t"
  by (induction slugs arbitrary: t)
     (auto simp: Let_def split: sum.splits option.splits bool.splits)

lemma NewTrack_loop_sound:
  "dirs (fst (NewTrack_loop w t slugs)) slug = Some q \<Longrightarrow>
     dirs t slug = Some q \<or>
     (q = Join [path t, ''exercises'', slug] \<and>
      (\<exists>fi. Stat w q = Inr fi \<and> IsDir fi \<and> isHiddenDir (Name fi) = Some True))"
proof (induction slugs arbitrary: t)
  case Nil
  then show ?case by simp
next
  case (Cons s slugs)
  let ?p = "Join [path t, ''exercises'', s]"
  show ?case
  proof (cases "\<exists>fi. Stat w ?p = Inr fi \<and> IsDir fi \<and> isHiddenDir (Name fi) = Some True")
    case True
    then obtain fi where fi: "Stat w ?p = Inr fi" "IsDir fi" "isHiddenDir (Name fi) = Some True"
      by blast
    with Cons.prems
    have "dirs (fst (NewTrack_loop w (t\<lparr>dirs := (dirs t)(s \<mapsto> ?p)\<rparr>) slugs)) slug = Some q"
      by (simp add: Let_def)
    from Cons.IH [OF this] fi show ?thesis
      by (auto split: if_splits)
  next
    case False
    with Cons.prems
    have "dirs t slug = Some q \<or> dirs (fst (NewTrack_loop w t slugs)) slug = Some q"
      by (auto simp: Let_def split: sum.splits option.splits bool.splits if_splits)
    with Cons.IH [of t] show ?thesis by blast
  qed
qed

lemma NewTrack_sound:
  assumes "dirs (fst (NewTrack w p)) slug = Some q"
  shows "q = Join [p, ''exercises'', slug] \<and>
         (\<exists>fi. Stat w q = Inr fi \<and> IsDir fi \<and> isHiddenDir (Name fi) = Some True)"
proof -
  let ?t = "\<lparr>path = p, dirs = Map.empty\<rparr>"
  from assms obtain slugs where "dirs (fst (NewTrack_loop w ?t slugs)) slug = Some q"
    by (auto simp: NewTrack_def Let_def split: prod.splits option.splits)
  from NewTrack_loop_sound [OF this] show ?thesis by auto
qed


lemma UnconfiguredProblems_ok:
  assumes "Track_Config w t = (M, None)" and "Dirs w t = (D, None)"
  shows "UnconfiguredProblems w t = (filter (\<lambda>d. d \<notin> set (fst (Track_Slugs w t))) D, None)"
  using Track_Slugs_ok [OF assms(1)]
  by (cases "Track_Slugs w t") (simp add: UnconfiguredProblems_def assms(2))


text \<open>
  C8. No name that begins with a dot is in the set that \<open>Dirs\<close> returns; and a slug
  whose \<open>exercises/<slug>\<close> is found by \<open>os.Stat\<close> under a name that begins with a dot
  gets no entry in \<open>dirs\<close> when \<open>NewTrack\<close> resolves the slugs.
\<close>

theorem hidden_directories_invisible:
  "(\<forall>name. CHR ''.'' # name \<notin> set (fst (Dirs w t))) \<and>
   (Stat w (Join [p, ''exercises'', slug]) = Inr fi \<and> Name fi = CHR ''.'' # rest
      \<longrightarrow> dirs (fst (NewTrack w p)) slug = None)"
proof (intro conjI allI impI)
  fix name
  show "CHR ''.'' # name \<notin> set (fst (Dirs w t))"
    using Dirs_sound [of "CHR ''.'' # name" w t] by auto
next
  assume h: "Stat w (Join [p, ''exercises'', slug]) = Inr fi \<and> Name fi = CHR ''.'' # rest"
  show "dirs (fst (NewTrack w p)) slug = None"
  proof (cases "dirs (fst (NewTrack w p)) slug")
    case (Some q)
    from NewTrack_sound [OF this] h show ?thesis by auto
  qed simp
qed





lemma hidden_Stat:
  "Stat hidden_world (Join [''track'', ''exercises'', ''.meta''])
     = Inr \<lparr>Name = ''.meta'', IsDir = True\<rparr>"
  by (simp add: Join_def Clean_def hidden_world_def track_world_def)

lemma hidden_Dirs: "Dirs hidden_world \<lparr>path = ''track'', dirs = d\<rparr> = ([''bob''], None)"
  by (simp add: Dirs_def Join_track_exercises hidden_world_def track_world_def put_def)

lemma hidden_NewTrack_bob:
  "dirs (fst (NewTrack hidden_world ''track'')) ''bob'' = Some ''track/exercises/bob''"
  by (simp add: NewTrack_def Track_Slugs_def Track_Config_def Load_def configFile_def
      hidden_world_def track_world_def NewConfig_def Config_field_def keyIs_def toUpper_def
      zero_Exercise_def Exercise_field_def earliest_def Config_Slugs_def put_def
      Join_def Clean_def)

theorem hidden_directories_invisible_witness:
  "Stat hidden_world (Join [''track'', ''exercises'', ''.meta''])
     = Inr \<lparr>Name = ''.meta'', IsDir = True\<rparr> \<and>
   dirs (fst (NewTrack hidden_world ''track'')) ''.meta'' = None \<and>
   dirs (fst (NewTrack hidden_world ''track'')) ''bob'' = Some ''track/exercises/bob'' \<and>
   Dirs hidden_world \<lparr>path = ''track'', dirs = Map.empty\<rparr> = ([''bob''], None)"
proof -
  have n: "Name \<lparr>Name = ''.meta'', IsDir = True\<rparr> = CHR ''.'' # ''meta''"
    by simp
  note T = hidden_directories_invisible
             [of hidden_world _ "''track''" "''.meta''" "\<lparr>Name = ''.meta'', IsDir = True\<rparr>" "''meta''"]
  note m = mp [OF T [THEN conjunct2] conjI [OF hidden_Stat n]]
  show ?thesis
    by (intro conjI) (rule hidden_Stat m hidden_NewTrack_bob hidden_Dirs)+
qed

section \<open>Duplicate classifications\<close>

lemma map_of_incr:
  "map_of (incr counts s) =
     (map_of counts)(s \<mapsto> (case map_of counts s of None \<Rightarrow> 0 | Some n \<Rightarrow> n) + 1)"
  by (simp add: incr_def update_conv')

lemma count_incr:
  "(case map_of (incr counts s) x of None \<Rightarrow> 0 | Some n \<Rightarrow> n)
     = (case map_of counts x of None \<Rightarrow> 0 | Some n \<Rightarrow> n) + (if x = s then 1 else 0)"
  by (simp add: map_of_incr)

lemma count_foldl_incr:
  "(case map_of (foldl incr counts xs) x of None \<Rightarrow> 0 | Some n \<Rightarrow> n)
     = (case map_of counts x of None \<Rightarrow> 0 | Some n \<Rightarrow> n) + int (count_list xs x)"
proof (induction xs arbitrary: counts)
  case Nil
  show ?case by simp
next
  case (Cons y ys)
  have "(case map_of (foldl incr (incr counts y) ys) x of None \<Rightarrow> 0 | Some n \<Rightarrow> n)
          = (case map_of (incr counts y) x of None \<Rightarrow> 0 | Some n \<Rightarrow> n) + int (count_list ys x)"
    by (rule Cons.IH)
  then show ?case by (simp add: count_incr)
qed

lemma distinct_incr: "distinct (map fst counts) \<Longrightarrow> distinct (map fst (incr counts s))"
  by (simp add: incr_def distinct_update)

lemma distinct_foldl_incr:
  "distinct (map fst counts) \<Longrightarrow> distinct (map fst (foldl incr counts xs))"
  by (induction xs arbitrary: counts) (simp_all add: distinct_incr)

lemma dupes_iff:
  assumes "distinct (map fst counts)"
  shows "s \<in> set (map fst (filter (\<lambda>sc. snd sc > 1) counts))
           \<longleftrightarrow> (case map_of counts s of None \<Rightarrow> 0 | Some n \<Rightarrow> n) > (1::int)"
proof
  assume "s \<in> set (map fst (filter (\<lambda>sc. snd sc > 1) counts))"
  then obtain n where "(s, n) \<in> set counts" "n > 1" by auto
  with assms have "map_of counts s = Some n" by simp
  with \<open>n > 1\<close> show "(case map_of counts s of None \<Rightarrow> 0 | Some n \<Rightarrow> n) > (1::int)" by simp
next
  assume h: "(case map_of counts s of None \<Rightarrow> 0 | Some n \<Rightarrow> n) > (1::int)"
  then obtain n where n: "map_of counts s = Some n" "n > 1"
    by (cases "map_of counts s") auto
  from map_of_SomeD [OF n(1)] n(2)
  show "s \<in> set (map fst (filter (\<lambda>sc. snd sc > 1) counts))" by force
qed

lemma DuplicateSlugs_ok:
  assumes "Track_Config w t = (c, None)"
  shows "snd (DuplicateSlugs w t) = None"
    and "sorted (fst (DuplicateSlugs w t))"
    and "distinct (fst (DuplicateSlugs w t))"
    and "s \<in> set (fst (DuplicateSlugs w t)) \<longleftrightarrow> 2 \<le> occurrences c s"
proof -
  let ?counts = "foldl incr (foldl incr (foldl incr [] (Config_Slugs c)) (Deprecated c)) (Foregone c)"
  have r: "DuplicateSlugs w t = (sort (map fst (filter (\<lambda>sc. snd sc > 1) ?counts)), None)"
    by (simp add: DuplicateSlugs_def assms Let_def)
  have d: "distinct (map fst ?counts)"
    by (intro distinct_foldl_incr) simp
  have n: "(case map_of ?counts s of None \<Rightarrow> 0 | Some n \<Rightarrow> n) = int (occurrences c s)"
    by (simp add: count_foldl_incr occurrences_def)
  show "snd (DuplicateSlugs w t) = None" by (simp add: r)
  show "sorted (fst (DuplicateSlugs w t))" by (simp add: r)
  show "distinct (fst (DuplicateSlugs w t))"
    using d by (simp add: r distinct_map_filter)
  have "s \<in> set (fst (DuplicateSlugs w t))
          \<longleftrightarrow> s \<in> set (map fst (filter (\<lambda>sc. snd sc > 1) ?counts))"
    by (simp add: r)
  also have "\<dots> \<longleftrightarrow> int (occurrences c s) > 1"
    by (simp only: dupes_iff [OF d] n)
  also have "\<dots> \<longleftrightarrow> 2 \<le> occurrences c s" by linarith
  finally show "s \<in> set (fst (DuplicateSlugs w t)) \<longleftrightarrow> 2 \<le> occurrences c s" .
qed

lemma count_list_pos: "s \<in> set xs \<Longrightarrow> 1 \<le> count_list xs s"
  by (induction xs) auto

lemma in_two_or_more_occurrences: "in_two_or_more c s \<Longrightarrow> 2 \<le> occurrences c s"
proof -
  assume "in_two_or_more c s"
  then show ?thesis
    unfolding in_two_or_more_def occurrences_def
    using count_list_pos [of s "Config_Slugs c"] count_list_pos [of s "Deprecated c"]
      count_list_pos [of s "Foregone c"]
    by linarith
qed

text \<open>
  What \<open>DuplicateSlugs\<close> computes. For a manifest that loads it returns no error and a
  list sorted ascending without repetition, and a slug is in it exactly when it is
  written two or more times in the three sequences taken together. So a slug written
  once in all is never in it, and a slug written in two or more of the sequences
  always is.
\<close>

theorem DuplicateSlugs_counts:
  assumes "Track_Config w t = (c, None)"
  shows "snd (DuplicateSlugs w t) = None \<and>
         sorted (fst (DuplicateSlugs w t)) \<and>
         distinct (fst (DuplicateSlugs w t)) \<and>
         (\<forall>s. s \<in> set (fst (DuplicateSlugs w t)) \<longleftrightarrow> 2 \<le> occurrences c s) \<and>
         (\<forall>s. occurrences c s = 1 \<longrightarrow> s \<notin> set (fst (DuplicateSlugs w t))) \<and>
         (\<forall>s. in_two_or_more c s \<longrightarrow> s \<in> set (fst (DuplicateSlugs w t)))"
proof (intro conjI allI impI)
  show "snd (DuplicateSlugs w t) = None" by (rule DuplicateSlugs_ok(1) [OF assms])
  show "sorted (fst (DuplicateSlugs w t))" by (rule DuplicateSlugs_ok(2) [OF assms])
  show "distinct (fst (DuplicateSlugs w t))" by (rule DuplicateSlugs_ok(3) [OF assms])
next
  fix s
  show "s \<in> set (fst (DuplicateSlugs w t)) \<longleftrightarrow> 2 \<le> occurrences c s"
    by (rule DuplicateSlugs_ok(4) [OF assms])
next
  fix s
  assume "occurrences c s = 1"
  then show "s \<notin> set (fst (DuplicateSlugs w t))"
    by (simp add: DuplicateSlugs_ok(4) [OF assms])
next
  fix s
  assume "in_two_or_more c s"
  then show "s \<in> set (fst (DuplicateSlugs w t))"
    by (simp add: DuplicateSlugs_ok(4) [OF assms] in_two_or_more_occurrences)
qed


lemma overlap_Config:
  "Track_Config overlap_world \<lparr>path = ''track'', dirs = d\<rparr>
     = (NewConfig \<lparr>Deprecated := [''zed'', ''bob''],
                   Exercises := [zero_Exercise \<lparr>ExSlug := ''bob''\<rparr>,
                                 zero_Exercise \<lparr>ExSlug := ''anna''\<rparr>,
                                 zero_Exercise \<lparr>ExSlug := ''carl''\<rparr>],
                   Foregone := [''anna'', ''bob'']\<rparr>, None)"
  by (simp add: Track_Config_def Load_def configFile_def overlap_world_def track_world_def
      NewConfig_def Config_field_def keyIs_def toUpper_def zero_Exercise_def
      Exercise_field_def earliest_def)

lemma twice_Config:
  "Track_Config twice_world \<lparr>path = ''track'', dirs = d\<rparr>
     = (NewConfig \<lparr>Exercises := [zero_Exercise \<lparr>ExSlug := ''bob''\<rparr>,
                                 zero_Exercise \<lparr>ExSlug := ''bob''\<rparr>]\<rparr>, None)"
  by (simp add: Track_Config_def Load_def configFile_def twice_world_def track_world_def
      NewConfig_def Config_field_def keyIs_def toUpper_def zero_Exercise_def
      Exercise_field_def earliest_def)

theorem DuplicateSlugs_counts_witness:
  "Track_Config overlap_world \<lparr>path = ''track'', dirs = Map.empty\<rparr>
     = (NewConfig \<lparr>Deprecated := [''zed'', ''bob''],
                   Exercises := [zero_Exercise \<lparr>ExSlug := ''bob''\<rparr>,
                                 zero_Exercise \<lparr>ExSlug := ''anna''\<rparr>,
                                 zero_Exercise \<lparr>ExSlug := ''carl''\<rparr>],
                   Foregone := [''anna'', ''bob'']\<rparr>, None) \<and>
   DuplicateSlugs overlap_world \<lparr>path = ''track'', dirs = Map.empty\<rparr> = ([''anna'', ''bob''], None) \<and>
   sorted (fst (DuplicateSlugs overlap_world \<lparr>path = ''track'', dirs = Map.empty\<rparr>)) \<and>
   ''anna'' \<in> set (fst (DuplicateSlugs overlap_world \<lparr>path = ''track'', dirs = Map.empty\<rparr>)) \<and>
   ''carl'' \<notin> set (fst (DuplicateSlugs overlap_world \<lparr>path = ''track'', dirs = Map.empty\<rparr>))"
proof -
  let ?t = "\<lparr>path = ''track'', dirs = Map.empty\<rparr>"
  let ?c = "NewConfig \<lparr>Deprecated := [''zed'', ''bob''],
                   Exercises := [zero_Exercise \<lparr>ExSlug := ''bob''\<rparr>,
                                 zero_Exercise \<lparr>ExSlug := ''anna''\<rparr>,
                                 zero_Exercise \<lparr>ExSlug := ''carl''\<rparr>],
                   Foregone := [''anna'', ''bob'']\<rparr>"
  note T = DuplicateSlugs_counts [OF overlap_Config [of Map.empty]]
  have two: "in_two_or_more ?c ''anna''"
    by (simp add: in_two_or_more_def Config_Slugs_def NewConfig_def)
  have one: "occurrences ?c ''carl'' = 1"
    by (simp add: occurrences_def Config_Slugs_def NewConfig_def)
  have a: "''anna'' \<in> set (fst (DuplicateSlugs overlap_world ?t))"
    using T two by blast
  have c: "''carl'' \<notin> set (fst (DuplicateSlugs overlap_world ?t))"
    using T one by blast
  have s: "sorted (fst (DuplicateSlugs overlap_world ?t))"
    using T by blast
  have r: "DuplicateSlugs overlap_world ?t = ([''anna'', ''bob''], None)"
    by (simp add: DuplicateSlugs_def overlap_Config Config_Slugs_def NewConfig_def incr_def)
  show ?thesis
    by (intro conjI) (rule overlap_Config r s a c)+
qed

text \<open>
  C3. A slug in exactly one of the three sequences should never be in the result of
  \<open>DuplicateSlugs\<close>. In this manifest \<open>bob\<close> is an exercise slug, twice, and neither
  deprecated nor foregone; \<open>DuplicateSlugs\<close> returns it.
\<close>

theorem DuplicateSlugs_repeated_slug:
  "Track_Config twice_world \<lparr>path = ''track'', dirs = Map.empty\<rparr>
     = (NewConfig \<lparr>Exercises := [zero_Exercise \<lparr>ExSlug := ''bob''\<rparr>,
                                 zero_Exercise \<lparr>ExSlug := ''bob''\<rparr>]\<rparr>, None) \<and>
   ''bob'' \<in> set (Config_Slugs (NewConfig \<lparr>Exercises := [zero_Exercise \<lparr>ExSlug := ''bob''\<rparr>,
                                 zero_Exercise \<lparr>ExSlug := ''bob''\<rparr>]\<rparr>)) \<and>
   ''bob'' \<notin> set (Deprecated (NewConfig \<lparr>Exercises := [zero_Exercise \<lparr>ExSlug := ''bob''\<rparr>,
                                 zero_Exercise \<lparr>ExSlug := ''bob''\<rparr>]\<rparr>)) \<and>
   ''bob'' \<notin> set (Foregone (NewConfig \<lparr>Exercises := [zero_Exercise \<lparr>ExSlug := ''bob''\<rparr>,
                                 zero_Exercise \<lparr>ExSlug := ''bob''\<rparr>]\<rparr>)) \<and>
   DuplicateSlugs twice_world \<lparr>path = ''track'', dirs = Map.empty\<rparr> = ([''bob''], None)"
  by (simp add: twice_Config DuplicateSlugs_def Config_Slugs_def NewConfig_def incr_def)

section \<open>The loader\<close>

lemma decode_bool_err: "snd (decode_bool old v) = snd (decode_bool old' v)"
  by (cases v) simp_all

lemma decode_string_err: "snd (decode_string old v) = snd (decode_string old' v)"
  by (cases v) simp_all

lemma decode_strings_err: "snd (decode_strings old v) = snd (decode_strings old' v)"
  by (cases v) simp_all

lemma decode_Exercises_err: "snd (decode_Exercises old v) = snd (decode_Exercises old' v)"
  by (cases v) simp_all

lemma snd_case_pair: "snd (case p of (a, e) \<Rightarrow> (f a, e)) = snd p"
  by (cases p) simp

lemma fst_case_pair: "fst (case p of (a, e) \<Rightarrow> (f a, e)) = f (fst p)"
  by (cases p) simp

lemma snd_if: "snd (if b then x else y) = (if b then snd x else snd y)"
  by simp

lemma fst_if: "fst (if b then x else y) = (if b then fst x else fst y)"
  by simp

lemma Config_field_err: "snd (Config_field c k v) = snd (Config_field c' k v)"
  by (simp only: Config_field_def snd_if snd_case_pair snd_conv
      decode_bool_err [of "Active c" v "Active c'"]
      decode_strings_err [of "Deprecated c" v "Deprecated c'"]
      decode_Exercises_err [of "Exercises c" v "Exercises c'"]
      decode_strings_err [of "Foregone c" v "Foregone c'"]
      decode_string_err [of "IgnorePattern c" v "IgnorePattern c'"]
      decode_string_err [of "Language c" v "Language c'"]
      decode_string_err [of "Repository c" v "Repository c'"]
      decode_string_err [of "Slug c" v "Slug c'"]
      decode_string_err [of "SolutionPattern c" v "SolutionPattern c'"])

lemma earliest_Cons: "earliest (e # es) = first_error e (earliest es)"
  by (simp add: earliest_def)

lemma earliest_None: "earliest es = None \<longleftrightarrow> (\<forall>e \<in> set es. e = None)"
proof (induction es)
  case Nil
  show ?case by (simp add: earliest_def)
next
  case (Cons e es)
  then show ?case by (cases e) (simp_all add: earliest_Cons)
qed

lemma decode_object_err:
  "snd (decode_object Config_field c ms)
     = earliest (map (\<lambda>m. snd (Config_field NewConfig (fst m) (snd m))) ms)"
proof (induction ms arbitrary: c)
  case Nil
  show ?case by (simp add: earliest_def)
next
  case (Cons m ms)
  obtain k v where m: "m = (k, v)" by (cases m)
  obtain c' e where f: "Config_field c k v = (c', e)" by (cases "Config_field c k v")
  have e: "e = snd (Config_field NewConfig k v)"
    using Config_field_err [of c k v NewConfig] f by simp
  show ?case
    using Cons.IH [of c']
    by (cases "decode_object Config_field c' ms") (simp add: m f e earliest_Cons)
qed

lemma decode_object_accepted:
  "list_all accepted ms \<Longrightarrow> snd (decode_object Config_field c ms) = None"
  by (simp add: decode_object_err earliest_None list_all_iff accepted_def)

lemma decode_object_keeps:
  assumes keep: "\<And>c k v. \<not> keyIs k name \<Longrightarrow> sel (fst (Config_field c k v)) = sel c"
    and "list_all (\<lambda>m. \<not> keyIs (fst m) name) ms"
  shows "sel (fst (decode_object Config_field c ms)) = sel c"
  using assms(2)
proof (induction ms arbitrary: c)
  case Nil
  show ?case by simp
next
  case (Cons m ms)
  obtain k v where m: "m = (k, v)" by (cases m)
  obtain c' e where f: "Config_field c k v = (c', e)" by (cases "Config_field c k v")
  from Cons.prems m have k: "\<not> keyIs k name" and rest: "list_all (\<lambda>m. \<not> keyIs (fst m) name) ms"
    by simp_all
  have "sel c' = sel c" using keep [OF k, of c v] f by simp
  with Cons.IH [OF rest, of c'] show ?case
    by (cases "decode_object Config_field c' ms") (simp add: m f)
qed

lemma keeps_SolutionPattern:
  "\<not> keyIs k ''solution_pattern'' \<Longrightarrow> SolutionPattern (fst (Config_field c k v)) = SolutionPattern c"
  by (simp add: Config_field_def fst_if fst_case_pair)

lemma keeps_Foregone:
  "\<not> keyIs k ''foregone'' \<Longrightarrow> Foregone (fst (Config_field c k v)) = Foregone c"
  by (simp add: Config_field_def fst_if fst_case_pair)

lemma keyIs_deprecated: "keyIs k ''deprecated'' = keyIs k ''Deprecated''"
  by (simp add: keyIs_def toUpper_def)

lemma keeps_Deprecated:
  "\<not> keyIs k ''deprecated'' \<Longrightarrow> Deprecated (fst (Config_field c k v)) = Deprecated c"
  by (simp add: keyIs_deprecated) (simp add: Config_field_def fst_if fst_case_pair)

text \<open>
  C9. \<open>Load\<close> of a file that holds a well-formed manifest document returns no error,
  whichever fields the document leaves out; and the manifest it returns has
  \<open>SolutionPattern\<close> equal to \<open>[Ee]xample\<close> when the document omits \<open>solution_pattern\<close>,
  an empty \<open>Foregone\<close> when it omits \<open>foregone\<close>, and an empty \<open>Deprecated\<close> when it omits
  \<open>deprecated\<close>.
\<close>

theorem Load_defaults:
  assumes "ReadFile w file = Inr (Document doc)" and "well_formed doc"
  shows "snd (Load w file) = None \<and>
         (omits doc ''solution_pattern'' \<longrightarrow> SolutionPattern (fst (Load w file)) = ''[Ee]xample'') \<and>
         (omits doc ''foregone'' \<longrightarrow> Foregone (fst (Load w file)) = []) \<and>
         (omits doc ''deprecated'' \<longrightarrow> Deprecated (fst (Load w file)) = [])"
proof -
  from assms(2) obtain ms where doc: "doc = JObject ms" and acc: "list_all accepted ms"
    by (cases doc) (simp_all add: well_formed_def)
  obtain c where d: "decode_object Config_field NewConfig ms = (c, None)"
    using decode_object_accepted [OF acc, of NewConfig]
    by (cases "decode_object Config_field NewConfig ms") simp
  have l: "Load w file = (c, None)"
    by (simp add: Load_def assms(1) doc d)
  have c: "c = fst (decode_object Config_field NewConfig ms)"
    by (simp add: d)
  have sp: "SolutionPattern c = ''[Ee]xample''" if "omits doc ''solution_pattern''"
    using decode_object_keeps [of "''solution_pattern''" SolutionPattern ms NewConfig,
        OF keeps_SolutionPattern] that
    by (simp add: c doc omits_def NewConfig_def)
  have fg: "Foregone c = []" if "omits doc ''foregone''"
    using decode_object_keeps [of "''foregone''" Foregone ms NewConfig, OF keeps_Foregone] that
    by (simp add: c doc omits_def NewConfig_def)
  have dp: "Deprecated c = []" if "omits doc ''deprecated''"
    using decode_object_keeps [of "''deprecated''" Deprecated ms NewConfig, OF keeps_Deprecated] that
    by (simp add: c doc omits_def NewConfig_def)
  show ?thesis
    using sp fg dp by (simp add: l)
qed

lemma tidy_ReadFile: "ReadFile tidy_world ''track/config.json'' = Inr (Document tidy_config)"
  by (simp add: tidy_world_def track_world_def)

lemma tidy_well_formed: "well_formed tidy_config"
  by (simp add: well_formed_def tidy_config_def accepted_def NewConfig_def Config_field_def
      keyIs_def toUpper_def zero_Exercise_def Exercise_field_def earliest_def)

lemma tidy_omits:
  "omits tidy_config ''solution_pattern''" "omits tidy_config ''foregone''"
  "omits tidy_config ''deprecated''"
  by (simp_all add: omits_def tidy_config_def keyIs_def toUpper_def)

theorem Load_defaults_witness:
  "ReadFile tidy_world ''track/config.json'' = Inr (Document tidy_config) \<and>
   well_formed tidy_config \<and>
   omits tidy_config ''solution_pattern'' \<and>
   omits tidy_config ''foregone'' \<and>
   omits tidy_config ''deprecated'' \<and>
   snd (Load tidy_world ''track/config.json'') = None \<and>
   SolutionPattern (fst (Load tidy_world ''track/config.json'')) = ''[Ee]xample'' \<and>
   Foregone (fst (Load tidy_world ''track/config.json'')) = [] \<and>
   Deprecated (fst (Load tidy_world ''track/config.json'')) = []"
proof -
  note T = Load_defaults [OF tidy_ReadFile tidy_well_formed]
  note sp = mp [OF T [THEN conjunct2, THEN conjunct1] tidy_omits(1)]
  note fg = mp [OF T [THEN conjunct2, THEN conjunct2, THEN conjunct1] tidy_omits(2)]
  note dp = mp [OF T [THEN conjunct2, THEN conjunct2, THEN conjunct2] tidy_omits(3)]
  show ?thesis
    by (intro conjI) (rule tidy_ReadFile tidy_well_formed tidy_omits T [THEN conjunct1] sp fg dp)+
qed

section \<open>The validity check\<close>

text \<open>The result of \<open>HasValidConfig\<close> is that of the marshalling alone.\<close>

lemma HasValidConfig_marshal:
  "HasValidConfig w t = (MarshalIndent w (fst (Track_Config w t)) = None)"
  by (simp add: HasValidConfig_def split: prod.splits)

text \<open>
  C1. The validity check should fail for a track whose \<open>config.json\<close> does not load.
  Here the file is not JSON text, and then is missing: \<open>Track.Config\<close> returns an
  error both times, and \<open>HasValidConfig\<close> returns true.
\<close>

theorem HasValidConfig_unparsable:
  "Track_Config broken_world \<lparr>path = ''track'', dirs = Map.empty\<rparr>
     = (NewConfig,
        Some (ErrParse ''track/config.json'' (SyntaxError ''unexpected end of JSON input''))) \<and>
   HasValidConfig broken_world \<lparr>path = ''track'', dirs = Map.empty\<rparr> \<and>
   Track_Config bare_world \<lparr>path = ''track'', dirs = Map.empty\<rparr>
     = (NewConfig, Some (ErrNotExist ''track/config.json'')) \<and>
   HasValidConfig bare_world \<lparr>path = ''track'', dirs = Map.empty\<rparr>"
  by (simp add: HasValidConfig_def Track_Config_def Load_def configFile_def broken_world_def
      bare_world_def track_world_def)

section \<open>Example solutions\<close>

lemma file_under_here: "(name, File) \<in> set es \<Longrightarrow> file_under p es (p @ CHR ''/'' # name)"
  using file_under.here [of name es p] by simp

lemma file_under_below:
  "(name, Dir sub) \<in> set es \<Longrightarrow> file_under (p @ CHR ''/'' # name) sub f \<Longrightarrow> file_under p es f"
  using file_under.below [of name sub es p f] by simp

lemma file_under_Nil: "\<not> file_under p [] f"
proof
  assume "file_under p [] f"
  then show False by cases simp_all
qed

lemma file_under_Cons:
  "file_under p (e # es) f \<longleftrightarrow>
     (case e of
        (name, File) \<Rightarrow> f = p @ CHR ''/'' # name
      | (name, Dir sub) \<Rightarrow> file_under (p @ CHR ''/'' # name) sub f
      | (name, Unreadable err) \<Rightarrow> False) \<or> file_under p es f"
  (is "?l \<longleftrightarrow> ?here \<or> ?rest")
proof
  assume ?l
  then show "?here \<or> ?rest"
  proof cases
    case (here n)
    then have "(n, File) = e \<or> (n, File) \<in> set es" by auto
    then show ?thesis
    proof
      assume "(n, File) = e"
      with here show ?thesis by auto
    next
      assume "(n, File) \<in> set es"
      from file_under_here [OF this, of p] here show ?thesis by simp
    qed
  next
    case (below n sub)
    then have "(n, Dir sub) = e \<or> (n, Dir sub) \<in> set es" by auto
    then show ?thesis
    proof
      assume "(n, Dir sub) = e"
      with below show ?thesis by auto
    next
      assume "(n, Dir sub) \<in> set es"
      from file_under_below [OF this, of p f] below show ?thesis by simp
    qed
  qed
next
  assume "?here \<or> ?rest"
  then show ?l
  proof
    assume h: ?here
    obtain name n where e: "e = (name, n)" by (cases e)
    show ?l
    proof (cases n)
      case File
      with h e show ?thesis using file_under_here [of name "e # es" p] by simp
    next
      case (Dir sub)
      with h e show ?thesis using file_under_below [of name sub "e # es" p f] by simp
    next
      case (Unreadable err)
      with h e show ?thesis by simp
    qed
  next
    assume ?rest
    then show ?l
    proof cases
      case (here n)
      then show ?thesis using file_under_here [of n "e # es" p] by simp
    next
      case (below n sub)
      then show ?thesis using file_under_below [of n sub "e # es" p f] by simp
    qed
  qed
qed

lemma findAllFiles_loop_files:
  "findAllFiles_loop p acc es = (files, None) \<Longrightarrow>
     set files = set acc \<union> {f. file_under p es f}"
proof (induction p acc es arbitrary: files rule: findAllFiles_loop.induct)
  case (1 p acc)
  then show ?case by (simp add: file_under_Nil)
next
  case (2 p acc name infos)
  from "2.prems" have "findAllFiles_loop p (acc @ [p @ ''/'' @ name]) infos = (files, None)"
    by simp
  from "2.IH" [OF this] show ?case
    by (auto simp: file_under_Cons)
next
  case (3 p acc name err infos)
  then show ?case by simp
next
  case (4 p acc name es infos)
  obtain sub e where s: "findAllFiles_loop (p @ ''/'' @ name) [] es = (sub, e)"
    by (cases "findAllFiles_loop (p @ ''/'' @ name) [] es")
  from "4.prems" s have e: "e = None"
    by (cases e) simp_all
  from "4.prems" s e have rest: "findAllFiles_loop p (acc @ sub) infos = (files, None)"
    by simp
  have a: "set sub = {f. file_under (p @ CHR ''/'' # name) es f}"
    using "4.IH"(1) [of sub] s e by simp
  have b: "set files = set (acc @ sub) \<union> {f. file_under p infos f}"
    using "4.IH"(2) s e rest by auto
  show ?case
    unfolding b by (auto simp: a file_under_Cons)
qed

lemma findAllFiles_files:
  assumes "ReadDir w p = Inr es" and "findAllFiles w p = (files, None)"
  shows "set files = {f. file_under p es f}"
  using assms findAllFiles_loop_files [of p "[]" es files]
  by (simp add: findAllFiles_def)

lemma hasExampleFile_loop_matched:
  "hasExampleFile_loop r files \<longleftrightarrow> (\<exists>f \<in> set files. matched r f)"
  by (induction files) (auto simp: matched_def Let_def split: option.splits)

lemma ProblemsLackingExample_loop_issues:
  assumes "ProblemsLackingExample_loop w t issues problems = (res, None)"
  shows "s \<in> set res \<longleftrightarrow>
           s \<in> set issues \<or>
           (s \<in> set problems \<and>
            (\<exists>p. dirs t s = Some p \<and> p \<noteq> [] \<and> \<not> fst (hasExampleFile w t (fst (findAllFiles w p)))))"
    and "s \<in> set problems \<Longrightarrow> dirs t s = Some p \<Longrightarrow> p \<noteq> [] \<Longrightarrow> snd (findAllFiles w p) = None"
  using assms
proof (induction problems arbitrary: issues)
  case Nil
  { case 1 then show ?case by simp }
  { case 2 then show ?case by simp }
next
  case (Cons x xs)
  let ?q = "case dirs t x of None \<Rightarrow> [] | Some q \<Rightarrow> q"
  { case 1
    show ?case
    proof (cases "?q = []")
      case True
      with 1 have "ProblemsLackingExample_loop w t issues xs = (res, None)" by simp
      from Cons.IH(1) [OF this] True show ?thesis
        by (auto split: option.splits)
    next
      case False
      obtain files e where f: "findAllFiles w ?q = (files, e)" by (cases "findAllFiles w ?q")
      from 1 False f have e: "e = None" by (cases e) (simp_all add: Let_def)
      obtain found he where h: "hasExampleFile w t files = (found, he)"
        by (cases "hasExampleFile w t files")
      from 1 False f e h
      have "ProblemsLackingExample_loop w t (if \<not> found then issues @ [x] else issues) xs = (res, None)"
        by (cases found) (simp_all add: Let_def)
      from Cons.IH(1) [OF this] False f e h show ?thesis
        by (auto split: option.splits if_splits)
    qed }
  { case 2
    show ?case
    proof (cases "?q = []")
      case True
      with 2 have r: "ProblemsLackingExample_loop w t issues xs = (res, None)" by simp
      from 2 True have "s \<in> set xs" by (auto split: option.splits)
      from Cons.IH(2) [OF this 2(2) 2(3) r] show ?thesis .
    next
      case False
      obtain files e where f: "findAllFiles w ?q = (files, e)" by (cases "findAllFiles w ?q")
      from 2 False f have e: "e = None" by (cases e) (simp_all add: Let_def)
      obtain found he where h: "hasExampleFile w t files = (found, he)"
        by (cases "hasExampleFile w t files")
      from 2 False f e h
      have r: "ProblemsLackingExample_loop w t (if \<not> found then issues @ [x] else issues) xs = (res, None)"
        by (cases found) (simp_all add: Let_def)
      show ?thesis
      proof (cases "s = x")
        case True
        with 2 f e show ?thesis by simp
      next
        case False
        with 2 have "s \<in> set xs" by simp
        from Cons.IH(2) [OF this 2(2) 2(3) r] show ?thesis .
      qed
    qed }
qed

text \<open>
  A slug with a directory in \<open>dirs\<close> is in the result of a run without error exactly when
  \<open>hasExampleFile\<close> finds nothing among the files of the directory's tree.
\<close>

lemma flagged_iff_not_found:
  assumes "Track_Config w t = (c, None)"
    and "snd (ProblemsLackingExample w t) = None"
    and "s \<in> set (Config_Slugs c)" and "dirs t s = Some p" and "p \<noteq> []"
    and "ReadDir w p = Inr es"
  shows "\<exists>files. findAllFiles w p = (files, None) \<and> set files = {f. file_under p es f} \<and>
           (s \<in> set (fst (ProblemsLackingExample w t)) \<longleftrightarrow> \<not> fst (hasExampleFile w t files))"
proof -
  obtain res where r: "ProblemsLackingExample_loop w t [] (Config_Slugs c) = (res, None)"
    using assms(1,2) by (cases "ProblemsLackingExample_loop w t [] (Config_Slugs c)")
      (simp add: ProblemsLackingExample_def)
  have res: "fst (ProblemsLackingExample w t) = res"
    by (simp add: ProblemsLackingExample_def assms(1) r)
  have "snd (findAllFiles w p) = None"
    by (rule ProblemsLackingExample_loop_issues(2) [OF r assms(3,4,5)])
  then obtain files where f: "findAllFiles w p = (files, None)"
    by (cases "findAllFiles w p") simp
  have files: "set files = {f. file_under p es f}"
    by (rule findAllFiles_files [OF assms(6) f])
  have "s \<in> set res \<longleftrightarrow> \<not> fst (hasExampleFile w t files)"
    using ProblemsLackingExample_loop_issues(1) [OF r, of s] assms(3,4,5) f by simp
  with f files res show ?thesis by simp
qed

text \<open>
  \<open>NewTrack\<close> gives every declared slug with an existing directory its entry: when it
  returns no error, a slug of the manifest whose \<open>exercises/<slug>\<close> is a directory under a
  name that does not begin with a dot has that path in \<open>dirs\<close>. The path is never empty.
\<close>

lemma Clean_not_empty: "Clean p \<noteq> []"
  by (simp add: Clean_def Let_def)

lemma Join_exercises_not_empty: "Join [root, ''exercises'', s] \<noteq> []"
  by (cases "root = []") (simp_all add: Join_def Clean_not_empty)

lemma NewTrack_loop_complete:
  assumes "NewTrack_loop w t slugs = (t', None)"
    and "s \<in> set slugs \<or> dirs t s = Some (Join [path t, ''exercises'', s])"
    and "Stat w (Join [path t, ''exercises'', s]) = Inr fi" and "IsDir fi"
    and "isHiddenDir (Name fi) = Some True"
  shows "dirs t' s = Some (Join [path t, ''exercises'', s])"
  using assms(1,2,3)
proof (induction slugs arbitrary: t)
  case Nil
  then show ?case by simp
next
  case (Cons x xs)
  let ?p = "Join [path t, ''exercises'', x]"
  note st = Cons.prems(3)
  show ?case
  proof (cases "Stat w ?p")
    case (Inl err)
    with Cons.prems(1) have r: "NewTrack_loop w t xs = (t', None)"
      by (auto simp: Let_def split: if_splits)
    from Inl st have "x \<noteq> s" by auto
    with Cons.prems(2)
    have "s \<in> set xs \<or> dirs t s = Some (Join [path t, ''exercises'', s])"
      by auto
    from Cons.IH [OF r this st] show ?thesis .
  next
    case (Inr gi)
    show ?thesis
    proof (cases "IsDir gi \<and> isHiddenDir (Name gi) = Some True")
      case True
      let ?u = "t\<lparr>dirs := (dirs t)(x \<mapsto> ?p)\<rparr>"
      from Inr True Cons.prems(1) have r: "NewTrack_loop w ?u xs = (t', None)"
        by (simp add: Let_def)
      from Cons.prems(2)
      have a: "s \<in> set xs \<or> dirs ?u s = Some (Join [path ?u, ''exercises'', s])"
        by auto
      have b: "Stat w (Join [path ?u, ''exercises'', s]) = Inr fi"
        using st by simp
      from Cons.IH [OF r a b] show ?thesis by simp
    next
      case False
      with Inr Cons.prems(1) have r: "NewTrack_loop w t xs = (t', None)"
        by (auto simp: Let_def split: if_splits option.splits bool.splits)
      from False Inr st assms(4,5) have "x \<noteq> s" by auto
      with Cons.prems(2)
      have "s \<in> set xs \<or> dirs t s = Some (Join [path t, ''exercises'', s])"
        by auto
      from Cons.IH [OF r this st] show ?thesis .
    qed
  qed
qed

lemma NewTrack_complete:
  assumes "NewTrack w root = (t, None)"
    and "Track_Config w t = (c, None)"
    and "s \<in> set (Config_Slugs c)"
    and "Stat w (Join [root, ''exercises'', s]) = Inr fi" and "IsDir fi"
    and "isHiddenDir (Name fi) = Some True"
  shows "dirs t s = Some (Join [root, ''exercises'', s])"
proof -
  let ?t0 = "\<lparr>path = root, dirs = Map.empty\<rparr>"
  from assms(1) obtain slugs where sl: "Track_Slugs w ?t0 = (slugs, None)"
    and lp: "NewTrack_loop w ?t0 slugs = (t, None)"
    by (auto simp: NewTrack_def Let_def split: prod.splits option.splits)
  have "path t = root"
    using NewTrack_loop_path [of w ?t0 slugs] lp by simp
  then have "Track_Config w ?t0 = Track_Config w t"
    by (simp add: Track_Config_def configFile_def)
  with assms(2) have c0: "Track_Config w ?t0 = (c, None)" by simp
  from Track_Slugs_ok [OF c0] sl assms(3) have "s \<in> set slugs" by simp
  then show ?thesis
    using NewTrack_loop_complete [OF lp _ _ assms(5,6), of s] assms(4) by simp
qed

text \<open>
  C6, as the code has it. Take a track that \<open>NewTrack\<close> builds without error, a manifest
  that loads with a \<open>solution_pattern\<close> that compiles, and a run of
  \<open>ProblemsLackingExample\<close> that returns no error. An exercise slug whose
  \<open>exercises/<slug>\<close> is a directory under a name that does not begin with a dot has its
  path in \<open>dirs\<close>, and is in the result exactly when no file of the directory's tree, at
  any depth, has a path (from the track root on) in which the pattern's leftmost match
  has positive length.
\<close>

theorem example_detection:
  assumes "NewTrack w root = (t, None)"
    and "Track_Config w t = (c, None)"
    and "Compile w (SolutionPattern c) = Inr r"
    and "snd (ProblemsLackingExample w t) = None"
    and "s \<in> set (Config_Slugs c)"
    and "Stat w (Join [root, ''exercises'', s]) = Inr fi" and "IsDir fi"
    and "isHiddenDir (Name fi) = Some True"
    and "ReadDir w (Join [root, ''exercises'', s]) = Inr es"
  shows "dirs t s = Some (Join [root, ''exercises'', s]) \<and>
         (s \<in> set (fst (ProblemsLackingExample w t)) \<longleftrightarrow>
            \<not> (\<exists>f. file_under (Join [root, ''exercises'', s]) es f \<and> matched r f))"
proof -
  let ?p = "Join [root, ''exercises'', s]"
  have d: "dirs t s = Some ?p"
    by (rule NewTrack_complete [OF assms(1,2,5,6,7,8)])
  from flagged_iff_not_found [OF assms(2,4,5) d Join_exercises_not_empty assms(9)]
  obtain files where files: "set files = {f. file_under ?p es f}"
    and fl: "s \<in> set (fst (ProblemsLackingExample w t)) \<longleftrightarrow> \<not> fst (hasExampleFile w t files)"
    by blast
  have "fst (hasExampleFile w t files) \<longleftrightarrow> (\<exists>f \<in> set files. matched r f)"
    by (simp add: hasExampleFile_def assms(2,3) hasExampleFile_loop_matched)
  also have "\<dots> \<longleftrightarrow> (\<exists>f. file_under ?p es f \<and> matched r f)"
    unfolding files by blast
  finally have "s \<in> set (fst (ProblemsLackingExample w t))
      \<longleftrightarrow> \<not> (\<exists>f. file_under ?p es f \<and> matched r f)"
    using fl by simp
  with d show ?thesis by simp
qed

lemmas load_eval =
  Track_Config_def Load_def configFile_def track_world_def NewConfig_def Config_field_def
  keyIs_def toUpper_def zero_Exercise_def Exercise_field_def earliest_def Config_Slugs_def

lemmas track_eval =
  NewTrack_def Track_Slugs_def put_def Join_def Clean_def Let_def

lemmas example_eval =
  ProblemsLackingExample_def hasExampleFile_def findAllFiles_def simple_Compile_def
  is_word_char_def

lemma examples_Config:
  "Track_Config examples_world \<lparr>path = ''track'', dirs = d\<rparr>
     = (NewConfig \<lparr>Exercises := [zero_Exercise \<lparr>ExSlug := ''plain''\<rparr>,
                                 zero_Exercise \<lparr>ExSlug := ''named''\<rparr>,
                                 zero_Exercise \<lparr>ExSlug := ''deep''\<rparr>,
                                 zero_Exercise \<lparr>ExSlug := ''absent''\<rparr>]\<rparr>, None)"
  by (simp add: examples_world_def load_eval)

lemma examples_NewTrack:
  "NewTrack examples_world ''track''
     = (\<lparr>path = ''track'',
         dirs = [''plain'' \<mapsto> ''track/exercises/plain'', ''named'' \<mapsto> ''track/exercises/named'',
                 ''deep'' \<mapsto> ''track/exercises/deep'']\<rparr>, None)"
  by (simp add: examples_world_def load_eval track_eval)

lemma Compile_default:
  "simple_Compile ''[Ee]xample'' = Inr (find_classes [''Ee'', ''x'', ''a'', ''m'', ''p'', ''l'', ''e''])"
  by (simp add: simple_Compile_def is_word_char_def)

lemma examples_Compile: "Compile examples_world = simple_Compile"
  by (simp add: examples_world_def track_world_def)

lemma examples_ReadDir:
  "ReadDir examples_world ''track/exercises/plain'' = Inr [(''solution.go'', File)]"
  "ReadDir examples_world ''track/exercises/named'' = Inr [(''example_solution.go'', File)]"
  "ReadDir examples_world ''track/exercises/deep''
     = Inr [(''README.md'', File), (''src'', Dir [(''main'', Dir [(''Example.go'', File)])])]"
  by (simp_all add: examples_world_def track_world_def)

lemma examples_PLE:
  "ProblemsLackingExample examples_world (fst (NewTrack examples_world ''track'')) = ([''plain''], None)"
  unfolding examples_NewTrack fst_conv
  by (simp add: examples_world_def load_eval example_eval Let_def)

lemma examples_Stat:
  "Stat examples_world (Join [''track'', ''exercises'', ''plain''])
     = Inr \<lparr>Name = ''plain'', IsDir = True\<rparr>"
  "Stat examples_world (Join [''track'', ''exercises'', ''deep''])
     = Inr \<lparr>Name = ''deep'', IsDir = True\<rparr>"
  by (simp_all add: examples_world_def track_world_def Join_def Clean_def)

lemma examples_Join:
  "Join [''track'', ''exercises'', ''plain''] = ''track/exercises/plain''"
  "Join [''track'', ''exercises'', ''deep''] = ''track/exercises/deep''"
  by (simp_all add: Join_def Clean_def)

lemma examples_plain_unmatched:
  "\<not> (\<exists>f. file_under ''track/exercises/plain'' [(''solution.go'', File)] f \<and>
        matched (find_classes [''Ee'', ''x'', ''a'', ''m'', ''p'', ''l'', ''e'']) f)"
  by (simp add: file_under_Cons file_under_Nil matched_def)

lemma examples_deep_matched:
  "\<exists>f. file_under ''track/exercises/deep''
        [(''README.md'', File), (''src'', Dir [(''main'', Dir [(''Example.go'', File)])])] f \<and>
      matched (find_classes [''Ee'', ''x'', ''a'', ''m'', ''p'', ''l'', ''e'']) f"
proof (intro exI conjI)
  show "file_under ''track/exercises/deep''
          [(''README.md'', File), (''src'', Dir [(''main'', Dir [(''Example.go'', File)])])]
          ''track/exercises/deep/src/main/Example.go''"
    by (simp add: file_under_Cons file_under_Nil)
  show "matched (find_classes [''Ee'', ''x'', ''a'', ''m'', ''p'', ''l'', ''e''])
          ''track/exercises/deep/src/main/Example.go''"
    by (simp add: matched_def)
qed

theorem example_detection_witness:
  "snd (NewTrack examples_world ''track'') = None \<and>
   snd (Track_Config examples_world (fst (NewTrack examples_world ''track''))) = None \<and>
   Compile examples_world
     (SolutionPattern (fst (Track_Config examples_world (fst (NewTrack examples_world ''track'')))))
     = Inr (find_classes [''Ee'', ''x'', ''a'', ''m'', ''p'', ''l'', ''e'']) \<and>
   snd (ProblemsLackingExample examples_world (fst (NewTrack examples_world ''track''))) = None \<and>
   Stat examples_world (Join [''track'', ''exercises'', ''plain''])
     = Inr \<lparr>Name = ''plain'', IsDir = True\<rparr> \<and>
   Stat examples_world (Join [''track'', ''exercises'', ''deep''])
     = Inr \<lparr>Name = ''deep'', IsDir = True\<rparr> \<and>
   ReadDir examples_world (Join [''track'', ''exercises'', ''plain''])
     = Inr [(''solution.go'', File)] \<and>
   ReadDir examples_world (Join [''track'', ''exercises'', ''deep''])
     = Inr [(''README.md'', File), (''src'', Dir [(''main'', Dir [(''Example.go'', File)])])] \<and>
   dirs (fst (NewTrack examples_world ''track'')) ''plain'' = Some ''track/exercises/plain'' \<and>
   dirs (fst (NewTrack examples_world ''track'')) ''deep'' = Some ''track/exercises/deep'' \<and>
   ''plain'' \<in> set (fst (ProblemsLackingExample examples_world (fst (NewTrack examples_world ''track'')))) \<and>
   ''deep'' \<notin> set (fst (ProblemsLackingExample examples_world (fst (NewTrack examples_world ''track'')))) \<and>
   ProblemsLackingExample examples_world (fst (NewTrack examples_world ''track'')) = ([''plain''], None)"
proof -
  let ?t = "fst (NewTrack examples_world ''track'')"
  let ?c = "NewConfig \<lparr>Exercises := [zero_Exercise \<lparr>ExSlug := ''plain''\<rparr>,
                                 zero_Exercise \<lparr>ExSlug := ''named''\<rparr>,
                                 zero_Exercise \<lparr>ExSlug := ''deep''\<rparr>,
                                 zero_Exercise \<lparr>ExSlug := ''absent''\<rparr>]\<rparr>"
  let ?r = "find_classes [''Ee'', ''x'', ''a'', ''m'', ''p'', ''l'', ''e'']"
  have n: "NewTrack examples_world ''track'' = (?t, None)"
    by (simp only: examples_NewTrack fst_conv)
  have n': "snd (NewTrack examples_world ''track'') = None"
    by (simp only: examples_NewTrack snd_conv)
  have c: "Track_Config examples_world ?t = (?c, None)"
    by (simp only: examples_NewTrack fst_conv examples_Config)
  have c': "snd (Track_Config examples_world ?t) = None"
    by (simp only: c snd_conv)
  have sp: "SolutionPattern ?c = ''[Ee]xample''"
    by (simp add: NewConfig_def)
  have rc: "Compile examples_world (SolutionPattern ?c) = Inr ?r"
    by (simp only: sp examples_Compile Compile_default)
  have rc': "Compile examples_world (SolutionPattern (fst (Track_Config examples_world ?t))) = Inr ?r"
    by (simp only: c fst_conv rc)
  have e: "snd (ProblemsLackingExample examples_world ?t) = None"
    by (simp only: examples_PLE snd_conv)
  have s: "''plain'' \<in> set (Config_Slugs ?c)" "''deep'' \<in> set (Config_Slugs ?c)"
    by (simp_all add: Config_Slugs_def)
  have isd: "IsDir \<lparr>Name = ''plain'', IsDir = True\<rparr>" "IsDir \<lparr>Name = ''deep'', IsDir = True\<rparr>"
    by simp_all
  have nh: "isHiddenDir (Name \<lparr>Name = ''plain'', IsDir = True\<rparr>) = Some True"
    "isHiddenDir (Name \<lparr>Name = ''deep'', IsDir = True\<rparr>) = Some True"
    by simp_all
  have rd: "ReadDir examples_world (Join [''track'', ''exercises'', ''plain''])
              = Inr [(''solution.go'', File)]"
    "ReadDir examples_world (Join [''track'', ''exercises'', ''deep''])
       = Inr [(''README.md'', File), (''src'', Dir [(''main'', Dir [(''Example.go'', File)])])]"
    by (simp_all only: examples_Join examples_ReadDir)
  note P = example_detection [OF n c rc e s(1) examples_Stat(1) isd(1) nh(1) rd(1)]
  note D = example_detection [OF n c rc e s(2) examples_Stat(2) isd(2) nh(2) rd(2)]
  have dp: "dirs ?t ''plain'' = Some ''track/exercises/plain''"
    using P by (simp only: examples_Join)
  have dd: "dirs ?t ''deep'' = Some ''track/exercises/deep''"
    using D by (simp only: examples_Join)
  have plain: "''plain'' \<in> set (fst (ProblemsLackingExample examples_world ?t))"
    using P examples_plain_unmatched by (simp only: examples_Join simp_thms)
  have deep: "''deep'' \<notin> set (fst (ProblemsLackingExample examples_world ?t))"
    using D examples_deep_matched by (simp only: examples_Join simp_thms)
  show ?thesis
    by (intro conjI)
       (rule n' c' rc' e examples_Stat rd dp dd plain deep examples_PLE)+
qed

lemma emptypattern_NewTrack:
  "NewTrack emptypattern_world ''track''
     = (\<lparr>path = ''track'', dirs = [''bob'' \<mapsto> ''track/exercises/bob'']\<rparr>, None)"
  by (simp add: emptypattern_world_def load_eval track_eval)

text \<open>
  C6 as stated fails when the pattern matches a path with an empty match. The manifest
  sets \<open>solution_pattern\<close> to the empty string, which compiles and matches every path;
  \<open>Find\<close> returns the empty match on \<open>example.go\<close> in the directory of \<open>bob\<close>, and \<open>bob\<close> is
  flagged.
\<close>

theorem example_detection_counterexample:
  "SolutionPattern (fst (Track_Config emptypattern_world (fst (NewTrack emptypattern_world ''track'')))) = [] \<and>
   dirs (fst (NewTrack emptypattern_world ''track'')) ''bob'' = Some ''track/exercises/bob'' \<and>
   findAllFiles emptypattern_world ''track/exercises/bob''
     = ([''track/exercises/bob/example.go''], None) \<and>
   (case Compile emptypattern_world [] of
      Inl err \<Rightarrow> None
    | Inr r \<Rightarrow> r ''track/exercises/bob/example.go'') = Some [] \<and>
   ProblemsLackingExample emptypattern_world (fst (NewTrack emptypattern_world ''track''))
     = ([''bob''], None)"
  unfolding emptypattern_NewTrack fst_conv
  by (simp add: emptypattern_world_def load_eval example_eval Let_def)

lemma badpattern_NewTrack:
  "NewTrack badpattern_world ''track''
     = (\<lparr>path = ''track'', dirs = [''bob'' \<mapsto> ''track/exercises/bob'']\<rparr>, None)"
  by (simp add: badpattern_world_def load_eval track_eval)

text \<open>
  C2. A \<open>solution_pattern\<close> that does not compile should come back as the error of
  \<open>ProblemsLackingExample\<close>. Here the pattern is \<open>[\<close>: \<open>hasExampleFile\<close> returns the error of
  \<open>regexp.Compile\<close>, and \<open>ProblemsLackingExample\<close> returns no error and flags \<open>bob\<close>, whose
  directory holds \<open>example.go\<close>.
\<close>

theorem pattern_error_swallowed:
  "SolutionPattern (fst (Track_Config badpattern_world (fst (NewTrack badpattern_world ''track'')))) = ''['' \<and>
   Compile badpattern_world ''['' = Inl (ErrPattern ''missing closing ]'') \<and>
   hasExampleFile badpattern_world (fst (NewTrack badpattern_world ''track''))
       [''track/exercises/bob/example.go'']
     = (False, Some (ErrPattern ''missing closing ]'')) \<and>
   ProblemsLackingExample badpattern_world (fst (NewTrack badpattern_world ''track''))
     = ([''bob''], None)"
  unfolding badpattern_NewTrack fst_conv
  by (simp add: badpattern_world_def load_eval example_eval Let_def)

lemma partial_NewTrack:
  "NewTrack partial_world ''track''
     = (\<lparr>path = ''track'',
         dirs = [''anna'' \<mapsto> ''track/exercises/anna'', ''bob'' \<mapsto> ''track/exercises/bob'']\<rparr>, None)"
  by (simp add: partial_world_def load_eval track_eval)

text \<open>The other four queries return an empty result beside every error.\<close>

lemma other_queries_empty_on_error:
  "(snd (MissingProblems w t) \<noteq> None \<longrightarrow> fst (MissingProblems w t) = []) \<and>
   (snd (UnconfiguredProblems w t) \<noteq> None \<longrightarrow> fst (UnconfiguredProblems w t) = []) \<and>
   (snd (ForegoneViolations w t) \<noteq> None \<longrightarrow> fst (ForegoneViolations w t) = []) \<and>
   (snd (DuplicateSlugs w t) \<noteq> None \<longrightarrow> fst (DuplicateSlugs w t) = [])"
proof (intro conjI)
  show "snd (MissingProblems w t) \<noteq> None \<longrightarrow> fst (MissingProblems w t) = []"
    by (simp add: MissingProblems_def split: prod.splits option.splits)
  show "snd (UnconfiguredProblems w t) \<noteq> None \<longrightarrow> fst (UnconfiguredProblems w t) = []"
    by (simp add: UnconfiguredProblems_def split: prod.splits option.splits)
  show "snd (ForegoneViolations w t) \<noteq> None \<longrightarrow> fst (ForegoneViolations w t) = []"
    by (simp add: ForegoneViolations_def split: prod.splits option.splits)
  show "snd (DuplicateSlugs w t) \<noteq> None \<longrightarrow> fst (DuplicateSlugs w t) = []"
    by (simp add: DuplicateSlugs_def Let_def split: prod.splits option.splits)
qed

text \<open>
  C4. A query that returns an error should return an empty result with it. Here the
  directory of \<open>bob\<close> cannot be listed: \<open>ProblemsLackingExample\<close> returns that error
  together with \<open>anna\<close>, flagged before.
\<close>

theorem partial_result_with_error:
  "findAllFiles partial_world ''track/exercises/bob'' = ([], Some (ErrIO ''permission denied'')) \<and>
   ProblemsLackingExample partial_world (fst (NewTrack partial_world ''track''))
     = ([''anna''], Some (ErrIO ''permission denied''))"
  unfolding partial_NewTrack fst_conv
  by (simp add: partial_world_def load_eval example_eval Let_def)

end
